theory Spec2Isabelle
  imports Complex_Main
begin

section \<open>The fovis visual odometry driver\<close>

text \<open>
  This theory embeds the driver of the fovis visual odometry library,
  \<^verbatim>\<open>src/visual_odometry.cpp\<close> (class \<^verbatim>\<open>VisualOdometry\<close>: its constructor,
  \<^verbatim>\<open>estimateInitialRotation\<close>, \<^verbatim>\<open>processFrame\<close>, \<^verbatim>\<open>getDefaultOptions\<close> and
  \<^verbatim>\<open>validateOptions\<close>).

  Conventions of the embedding.
  \<^item> A C++ \<^verbatim>\<open>int\<close> is an \<open>int\<close>. Signed overflow, an out-of-range conversion of a
    \<^verbatim>\<open>double\<close> to \<^verbatim>\<open>int\<close> and an integer division by zero are undefined in C++;
    where the driver computes on its inputs the model checks for them and returns an
    error value, so a result \<open>Inr s\<close> is a run in which the arithmetic is defined.
  \<^item> The \<^verbatim>\<open>double\<close> arithmetic of the threshold controller (line 204) is IEEE 754
    binary64 arithmetic: the product is rounded to the nearest double, ties to even,
    before it is converted to \<^verbatim>\<open>int\<close>.
  \<^item> The \<^verbatim>\<open>float\<close> matrices and the angles of \<^verbatim>\<open>estimateInitialRotation\<close> are
    idealised as \<open>real\<close>; the rounding of that arithmetic is not modelled.
  \<^item> The three \<^verbatim>\<open>OdometryFrame\<close> objects live in a store indexed by handles
    (the pointers \<^verbatim>\<open>_ref_frame\<close>, \<^verbatim>\<open>_prev_frame\<close>, \<^verbatim>\<open>_cur_frame\<close>);
    \<^verbatim>\<open>std::swap\<close> of two pointers exchanges two handles and leaves the store alone.
  \<^item> The classes the driver calls but that are not part of these sources
    (\<^verbatim>\<open>OdometryFrame\<close>, \<^verbatim>\<open>MotionEstimator\<close>, \<^verbatim>\<open>InitialHomographyEstimator\<close>,
    Eigen's \<^verbatim>\<open>Isometry3d\<close> and \<^verbatim>\<open>Quaterniond\<close>, the C library) are parameters,
    collected in the record \<open>collaborators\<close>. Nothing is assumed about them.
\<close>

subsection \<open>Double-precision numbers\<close>

text \<open>A \<^verbatim>\<open>double\<close> is a finite binary64 value, given by an integer \<open>m\<close> and an
  exponent \<open>e\<close> as \<open>m * 2 ^ e\<close>, or it is not finite (an infinity or a NaN).\<close>

datatype double = Finite int int | NonFinite

fun double_value :: "double \<Rightarrow> real" where
  "double_value (Finite m e) = real_of_int m * 2 powr real_of_int e"
| "double_value NonFinite = 0"

text \<open>The number of binary digits of a positive integer.\<close>

function bit_length :: "int \<Rightarrow> int" where
  "bit_length m = (if m \<le> 0 then 0 else 1 + bit_length (m div 2))"
  by pat_completeness auto
termination
  by (relation "measure nat") auto

declare bit_length.simps [simp del]

text \<open>\<open>M / 2 ^ k\<close> rounded to the nearest integer, a tie to the even one.\<close>

definition round_half_even :: "int \<Rightarrow> nat \<Rightarrow> int" where
  "round_half_even M k =
     (let q = M div 2 ^ k; r = M mod 2 ^ k in
      if 2 * r < 2 ^ k then q
      else if 2 ^ k < 2 * r then q + 1
      else if even q then q else q + 1)"

text \<open>The double nearest to the exact value \<open>M * 2 ^ E\<close>, as every IEEE operation
  returns it: the result keeps 53 binary digits, or fewer below \<open>2 ^ - 1022\<close>, where
  the spacing of the doubles stays \<open>2 ^ - 1074\<close>; a result of \<open>2 ^ 1024\<close> or more
  is an infinity.\<close>

definition double_round :: "int \<Rightarrow> int \<Rightarrow> double" where
  "double_round M E =
     (let k = nat (max (bit_length \<bar>M\<bar> - 53) (- 1074 - E));
          M' = round_half_even M k;
          E' = E + int k
      in if 1024 < bit_length \<bar>M'\<bar> + E' then NonFinite else Finite M' E')"

text \<open>The conversion of an \<^verbatim>\<open>int\<close> to \<^verbatim>\<open>double\<close> and the product of two
  doubles.\<close>

definition double_of_int :: "int \<Rightarrow> double" where
  "double_of_int n = double_round n 0"

fun double_mul :: "double \<Rightarrow> double \<Rightarrow> double" where
  "double_mul (Finite m1 e1) (Finite m2 e2) = double_round (m1 * m2) (e1 + e2)"
| "double_mul NonFinite y = NonFinite"
| "double_mul x NonFinite = NonFinite"

text \<open>The conversion \<^verbatim>\<open>(int) x\<close> of a \<^verbatim>\<open>double\<close> discards the fractional part;
  it has no value for an infinity or a NaN.\<close>

fun double_to_int :: "double \<Rightarrow> int option" where
  "double_to_int (Finite m e) =
     Some (if 0 \<le> e then m * 2 ^ nat e else sgn m * (\<bar>m\<bar> div 2 ^ nat (- e)))"
| "double_to_int NonFinite = None"

subsection \<open>Data\<close>

datatype vo_error =
    DivisionByZero
  | SignedOverflow
  | ConversionOutOfRange
  | MissingDefault string

text \<open>\<^verbatim>\<open>VisualOdometryOptions\<close> is a \<^verbatim>\<open>std::map<std::string, std::string>\<close>: its
  entries in iteration order.\<close>

type_synonym VisualOdometryOptions = "(string \<times> string) list"

type_synonym handle = nat

text \<open>A 3 by 3 matrix, read as \<open>H i j\<close> for the C++ \<^verbatim>\<open>H(i, j)\<close>.\<close>

type_synonym mat3 = "nat \<Rightarrow> nat \<Rightarrow> real"

text \<open>Modelled from the spec: \<^verbatim>\<open>CameraIntrinsicsParameters\<close> is declared in a header
  that is not among the sources. The spec (section 3) lists width, height, focal lengths
  and principal point; the driver reads \<^verbatim>\<open>width\<close>, \<^verbatim>\<open>height\<close> and \<^verbatim>\<open>fx\<close>.\<close>

record CameraIntrinsicsParameters =
  width :: int
  height :: int
  fx :: real
  fy :: real
  cx :: real
  cy :: real

text \<open>The collaborators of the driver. \<open>'f\<close> is an \<^verbatim>\<open>OdometryFrame\<close>, \<open>'e\<close> a
  \<^verbatim>\<open>MotionEstimator\<close>, \<open>'t\<close> an \<^verbatim>\<open>Eigen::Isometry3d\<close>, \<open>'c\<close> a covariance matrix,
  \<open>'q\<close> an \<^verbatim>\<open>Eigen::Quaterniond\<close>, \<open>'d\<close> a \<^verbatim>\<open>DepthSource\<close>, \<open>'g\<close> a grayscale
  image and \<open>'l\<close> a \<^verbatim>\<open>PyramidLevel\<close> of a frame.
  \<open>estimateMotion\<close> receives the frame store and the two frame pointers and returns
  the estimator and the store as it leaves them. \<open>homography_track\<close> stands for
  \<^verbatim>\<open>setTemplateImage\<close>, \<^verbatim>\<open>setTestImage\<close> and \<^verbatim>\<open>track\<close> of a fresh
  \<^verbatim>\<open>InitialHomographyEstimator\<close>: template level, its downsampling, test level, its
  downsampling, the initial homography and the number of iterations.
  The \<open>indeterminate\<close> fields are the values of members that the constructors leave
  uninitialised.\<close>

record ('f, 'e, 't, 'c, 'q, 'd, 'g, 'l) collaborators =
  iso_Identity :: 't
  iso_mul :: "'t \<Rightarrow> 't \<Rightarrow> 't"
  iso_inverse :: "'t \<Rightarrow> 't"
  iso_rotate :: "'t \<Rightarrow> 'q \<Rightarrow> 't"
  quat_Identity :: 'q
  rpy_to_quat :: "real \<times> real \<times> real \<Rightarrow> 'q"
  cov_Identity6 :: 'c
  cov_setIdentity :: "'c \<Rightarrow> 'c"
  c_asin :: "real \<Rightarrow> real"
  c_atan2 :: "real \<Rightarrow> real \<Rightarrow> real"
  new_OdometryFrame :: "CameraIntrinsicsParameters \<Rightarrow> VisualOdometryOptions \<Rightarrow> 'f"
  prepareFrame :: "'f \<Rightarrow> 'g \<Rightarrow> int \<Rightarrow> 'd \<Rightarrow> 'f"
  getNumDetectedKeypoints :: "'f \<Rightarrow> int"
  getNumLevels :: "'f \<Rightarrow> int"
  getLevel :: "'f \<Rightarrow> int \<Rightarrow> 'l"
  homography_track :: "'l \<Rightarrow> int \<Rightarrow> 'l \<Rightarrow> int \<Rightarrow> mat3 \<Rightarrow> int \<Rightarrow> mat3"
  new_MotionEstimator :: "CameraIntrinsicsParameters \<Rightarrow> VisualOdometryOptions \<Rightarrow> 'e"
  estimateMotion :: "'e \<Rightarrow> (handle \<Rightarrow> 'f) \<Rightarrow> handle \<Rightarrow> handle \<Rightarrow> 'd \<Rightarrow> 't \<Rightarrow> 'c
                      \<Rightarrow> 'e \<times> (handle \<Rightarrow> 'f)"
  isMotionEstimateValid :: "'e \<Rightarrow> bool"
  getMotionEstimate :: "'e \<Rightarrow> 't"
  getMotionEstimateCov :: "'e \<Rightarrow> 'c"
  getNumInliers :: "'e \<Rightarrow> int"
  parseInt :: "string \<Rightarrow> int option"
  parseBool :: "string \<Rightarrow> bool option"
  parseDouble :: "string \<Rightarrow> double option"
  indeterminate_int :: int
  indeterminate_iso :: 't
  indeterminate_cov :: 'c
  indeterminate_mat3 :: mat3

text \<open>The members of \<^verbatim>\<open>VisualOdometry\<close>; the members of the private struct
  \<^verbatim>\<open>_p\<close> are the last seven fields.\<close>

record ('f, 'e, 't, 'c) VisualOdometry =
  options :: VisualOdometryOptions
  params :: CameraIntrinsicsParameters
  frames :: "handle \<Rightarrow> 'f"
  ref_frame :: handle
  prev_frame :: handle
  cur_frame :: handle
  estimator :: 'e
  change_reference_frames :: bool
  ref_frame_change_threshold :: int
  frame_count :: int
  feature_window_size :: int
  num_pyramid_levels :: int
  target_pixels_per_feature :: int
  use_homography_initialization :: bool
  fast_threshold :: int
  use_adaptive_threshold :: bool
  fast_threshold_adaptive_gain :: double
  fast_threshold_min :: int
  fast_threshold_max :: int
  initial_rotation_pyramid_level :: int
  motion_estimate :: 't
  motion_estimate_covariance :: 'c
  pose :: 't
  ref_to_prev_frame :: 't
  initial_motion_estimate :: 't
  initial_motion_cov :: 'c
  initial_homography_est :: mat3

subsection \<open>Integer arithmetic of the source\<close>

definition INT_MIN :: int where
  "INT_MIN = - (2 ^ 31)"

definition INT_MAX :: int where
  "INT_MAX = 2 ^ 31 - 1"

definition is_int :: "int \<Rightarrow> bool" where
  "is_int x = (INT_MIN \<le> x \<and> x \<le> INT_MAX)"

text \<open>C++ integer division truncates towards zero.\<close>

definition c_div :: "int \<Rightarrow> int \<Rightarrow> int" where
  "c_div a b = sgn a * sgn b * (\<bar>a\<bar> div \<bar>b\<bar>)"

definition clamp :: "int \<Rightarrow> int \<Rightarrow> int \<Rightarrow> int" where
  "clamp val minval maxval =
     (if val > maxval then maxval else if val < minval then minval else val)"

subsection \<open>The initial rotation from a homography\<close>

text \<open>\<^verbatim>\<open>Eigen::Matrix3f\<close>: identity, product, and the inverse by cofactors.\<close>

definition mat_Identity :: mat3 where
  "mat_Identity = (\<lambda>i j. if i = j then 1 else 0)"

definition mat_mul :: "mat3 \<Rightarrow> mat3 \<Rightarrow> mat3" where
  "mat_mul A B = (\<lambda>i j. A i 0 * B 0 j + A i 1 * B 1 j + A i 2 * B 2 j)"

definition mat_det :: "mat3 \<Rightarrow> real" where
  "mat_det A =
     A 0 0 * (A 1 1 * A 2 2 - A 1 2 * A 2 1)
   - A 0 1 * (A 1 0 * A 2 2 - A 1 2 * A 2 0)
   + A 0 2 * (A 1 0 * A 2 1 - A 1 1 * A 2 0)"

definition mat_cofactor :: "mat3 \<Rightarrow> nat \<Rightarrow> nat \<Rightarrow> real" where
  "mat_cofactor A i j =
     A ((i + 1) mod 3) ((j + 1) mod 3) * A ((i + 2) mod 3) ((j + 2) mod 3)
   - A ((i + 1) mod 3) ((j + 2) mod 3) * A ((i + 2) mod 3) ((j + 1) mod 3)"

definition mat_inverse :: "mat3 \<Rightarrow> mat3" where
  "mat_inverse A = (\<lambda>i j. mat_cofactor A j i / mat_det A)"

text \<open>\<^verbatim>\<open>S = Identity * scale_factor; S(2, 2) = 1\<close>.\<close>

definition scale_matrix :: "real \<Rightarrow> mat3" where
  "scale_matrix scale_factor =
     (\<lambda>i j. if i = 2 \<and> j = 2 then 1 else mat_Identity i j * scale_factor)"

text \<open>The macro \<^verbatim>\<open>MIN(a,b) ((a)<(b) ? (a) : (b))\<close>.\<close>

definition c_MIN :: "int \<Rightarrow> int \<Rightarrow> int" where
  "c_MIN a b = (if a < b then a else b)"

text \<open>\<^verbatim>\<open>estimateInitialRotation(prev, cur)\<close>, lines 130 to 173. The two frames are
  read only (\<^verbatim>\<open>const OdometryFrame*\<close>); the third parameter of the C++ function is
  not used by its body. The function returns the quaternion and writes the members
  \<^verbatim>\<open>_initial_rotation_pyramid_level\<close> and \<^verbatim>\<open>_p->initial_homography_est\<close>.\<close>

definition estimateInitialRotation ::
  "('f, 'e, 't, 'c, 'q, 'd, 'g, 'l) collaborators \<Rightarrow> 'f \<Rightarrow> 'f
     \<Rightarrow> ('f, 'e, 't, 'c) VisualOdometry \<Rightarrow> 'q \<times> ('f, 'e, 't, 'c) VisualOdometry" where
  "estimateInitialRotation env prev cur s =
     (let s1 = s\<lparr>initial_rotation_pyramid_level := 4\<rparr>;
          num_pyr_levels = getNumLevels env prev;
          pyrLevel = c_MIN (num_pyr_levels - 1) (initial_rotation_pyramid_level s1);
          ref_level = getLevel env prev pyrLevel;
          target_level = getLevel env cur pyrLevel;
          H0 = homography_track env
                 ref_level (initial_rotation_pyramid_level s1 - pyrLevel)
                 target_level (initial_rotation_pyramid_level s1 - pyrLevel)
                 mat_Identity 8;
          scale_factor = 2 ^ nat (initial_rotation_pyramid_level s1);
          S = scale_matrix scale_factor;
          H = mat_mul (mat_mul S H0) (mat_inverse S);
          s2 = s1\<lparr>initial_homography_est := H\<rparr>;
          rpy = (c_asin env (H 1 2 / fx (params s2)),
                 - c_asin env (H 0 2 / fx (params s2)),
                 - c_atan2 env (H 1 0) (H 0 0))
      in (rpy_to_quat env rpy, s2))"

subsection \<open>processFrame\<close>

text \<open>Lines 178 to 191: the pointer swap, the local \<^verbatim>\<open>changed_reference_frames\<close>
  (the flag as it was on entry, kept by the caller below), the null motion estimate
  and the reset of the flag.\<close>

definition rotateFrames ::
  "('f, 'e, 't, 'c, 'q, 'd, 'g, 'l) collaborators
     \<Rightarrow> ('f, 'e, 't, 'c) VisualOdometry \<Rightarrow> ('f, 'e, 't, 'c) VisualOdometry" where
  "rotateFrames env s =
     (if change_reference_frames s
      then s\<lparr>ref_frame := cur_frame s, cur_frame := ref_frame s,
             ref_to_prev_frame := iso_Identity env\<rparr>
      else s\<lparr>prev_frame := cur_frame s, cur_frame := prev_frame s\<rparr>)"

definition beginFrame ::
  "('f, 'e, 't, 'c, 'q, 'd, 'g, 'l) collaborators
     \<Rightarrow> ('f, 'e, 't, 'c) VisualOdometry \<Rightarrow> ('f, 'e, 't, 'c) VisualOdometry" where
  "beginFrame env s =
     (rotateFrames env s)\<lparr>motion_estimate := iso_Identity env,
                           change_reference_frames := False\<rparr>"

text \<open>Line 194: \<^verbatim>\<open>_cur_frame->prepareFrame(gray, _fast_threshold, depth_source)\<close>.\<close>

definition detectFeatures ::
  "('f, 'e, 't, 'c, 'q, 'd, 'g, 'l) collaborators \<Rightarrow> 'g \<Rightarrow> 'd
     \<Rightarrow> ('f, 'e, 't, 'c) VisualOdometry \<Rightarrow> ('f, 'e, 't, 'c) VisualOdometry" where
  "detectFeatures env gray depth_source s =
     s\<lparr>frames := (frames s)
          (cur_frame s :=
             prepareFrame env (frames s (cur_frame s)) gray (fast_threshold s) depth_source)\<rparr>"

text \<open>Lines 196 to 208: the adaptive FAST threshold. In line 204 the \<^verbatim>\<open>int\<close> error
  is converted to \<^verbatim>\<open>double\<close>, multiplied by the gain in \<^verbatim>\<open>double\<close> and the
  product converted to \<^verbatim>\<open>int\<close>.\<close>

definition adaptThreshold ::
  "('f, 'e, 't, 'c, 'q, 'd, 'g, 'l) collaborators
     \<Rightarrow> ('f, 'e, 't, 'c) VisualOdometry \<Rightarrow> vo_error + ('f, 'e, 't, 'c) VisualOdometry" where
  "adaptThreshold env s =
     (let w = width (params s); h = height (params s) in
      if use_adaptive_threshold s then
        if \<not> is_int (w * h) then Inl SignedOverflow
        else if target_pixels_per_feature s = 0 then Inl DivisionByZero
        else if \<not> is_int (c_div (w * h) (target_pixels_per_feature s)) then Inl SignedOverflow
        else
          let target_num_features = c_div (w * h) (target_pixels_per_feature s);
              detected = getNumDetectedKeypoints env (frames s (cur_frame s))
          in
          if \<not> is_int (detected - target_num_features) then Inl SignedOverflow
          else
            let err = detected - target_num_features;
                product = double_mul (double_of_int err) (fast_threshold_adaptive_gain s)
            in
            case double_to_int product of
              None \<Rightarrow> Inl ConversionOutOfRange
            | Some thresh_adjustment \<Rightarrow>
                if \<not> is_int thresh_adjustment then Inl ConversionOutOfRange
                else if \<not> is_int (fast_threshold s + thresh_adjustment) then Inl SignedOverflow
                else Inr (s\<lparr>fast_threshold :=
                              clamp (fast_threshold s + thresh_adjustment)
                                (fast_threshold_min s) (fast_threshold_max s)\<rparr>)
      else Inr s)"

text \<open>Lines 221 to 231: the initial rotation, from the homography between the frame
  matched last and the current frame, or the identity quaternion.\<close>

definition initialRotation ::
  "('f, 'e, 't, 'c, 'q, 'd, 'g, 'l) collaborators \<Rightarrow> bool
     \<Rightarrow> ('f, 'e, 't, 'c) VisualOdometry \<Rightarrow> 'q \<times> ('f, 'e, 't, 'c) VisualOdometry" where
  "initialRotation env changed_reference_frames s =
     (if use_homography_initialization s then
        if changed_reference_frames
        then estimateInitialRotation env (frames s (ref_frame s)) (frames s (cur_frame s)) s
        else estimateInitialRotation env (frames s (prev_frame s)) (frames s (cur_frame s)) s
      else (quat_Identity env, s))"

text \<open>Lines 234 to 244: the estimate against the reference frame.\<close>

definition estimateAgainstReference ::
  "('f, 'e, 't, 'c, 'q, 'd, 'g, 'l) collaborators \<Rightarrow> 'd \<Rightarrow> 'q
     \<Rightarrow> ('f, 'e, 't, 'c) VisualOdometry \<Rightarrow> ('f, 'e, 't, 'c) VisualOdometry" where
  "estimateAgainstReference env depth_source init_rotation_est s =
     (let s1 = s\<lparr>initial_motion_estimate :=
                   iso_rotate env (iso_inverse env (ref_to_prev_frame s)) init_rotation_est\<rparr>;
          s2 = s1\<lparr>initial_motion_cov := cov_setIdentity env (initial_motion_cov s1)\<rparr>;
          (e, fs) = estimateMotion env (estimator s2) (frames s2) (ref_frame s2) (cur_frame s2)
                      depth_source (initial_motion_estimate s2) (initial_motion_cov s2)
      in s2\<lparr>estimator := e, frames := fs\<rparr>)"

text \<open>Lines 247 to 252: a valid estimate against the reference frame.\<close>

definition acceptReferenceEstimate ::
  "('f, 'e, 't, 'c, 'q, 'd, 'g, 'l) collaborators
     \<Rightarrow> ('f, 'e, 't, 'c) VisualOdometry \<Rightarrow> ('f, 'e, 't, 'c) VisualOdometry" where
  "acceptReferenceEstimate env s =
     (let to_reference = getMotionEstimate env (estimator s);
          s1 = s\<lparr>motion_estimate := iso_mul env (ref_to_prev_frame s) to_reference\<rparr>;
          to_reference_cov = getMotionEstimateCov env (estimator s1);
          s2 = s1\<lparr>motion_estimate_covariance := to_reference_cov\<rparr>;
          s3 = s2\<lparr>ref_to_prev_frame := iso_inverse env to_reference\<rparr>
      in s3\<lparr>pose := iso_mul env (pose s3) (motion_estimate s3)\<rparr>)"

text \<open>Lines 257 to 273: the second estimate, against the previous frame.\<close>

definition estimateAgainstPrevious ::
  "('f, 'e, 't, 'c, 'q, 'd, 'g, 'l) collaborators \<Rightarrow> 'd \<Rightarrow> 'q
     \<Rightarrow> ('f, 'e, 't, 'c) VisualOdometry \<Rightarrow> ('f, 'e, 't, 'c) VisualOdometry" where
  "estimateAgainstPrevious env depth_source init_rotation_est s =
     (let s1 = s\<lparr>initial_motion_estimate :=
                   iso_rotate env (iso_Identity env) init_rotation_est\<rparr>;
          s2 = s1\<lparr>initial_motion_cov := cov_setIdentity env (initial_motion_cov s1)\<rparr>;
          (e, fs) = estimateMotion env (estimator s2) (frames s2) (prev_frame s2) (cur_frame s2)
                      depth_source (initial_motion_estimate s2) (initial_motion_cov s2);
          s3 = s2\<lparr>estimator := e, frames := fs\<rparr>
      in if isMotionEstimateValid env (estimator s3) then
           let s4 = s3\<lparr>motion_estimate := getMotionEstimate env (estimator s3)\<rparr>;
               s5 = s4\<lparr>motion_estimate_covariance := getMotionEstimateCov env (estimator s4)\<rparr>;
               s6 = s5\<lparr>pose := iso_mul env (pose s5) (motion_estimate s5)\<rparr>
           in s6\<lparr>change_reference_frames := True\<rparr>
         else s3)"

text \<open>Lines 277 to 281: \<^verbatim>\<open>switch reference frames?\<close>\<close>

definition switchReference ::
  "('f, 'e, 't, 'c, 'q, 'd, 'g, 'l) collaborators
     \<Rightarrow> ('f, 'e, 't, 'c) VisualOdometry \<Rightarrow> ('f, 'e, 't, 'c) VisualOdometry" where
  "switchReference env s =
     (if \<not> isMotionEstimateValid env (estimator s)
         \<or> getNumInliers env (estimator s) < ref_frame_change_threshold s
      then s\<lparr>change_reference_frames := True\<rparr>
      else s)"

text \<open>Lines 178 to 210: everything before the test for the first frame.\<close>

definition enterFrame ::
  "('f, 'e, 't, 'c, 'q, 'd, 'g, 'l) collaborators \<Rightarrow> 'g \<Rightarrow> 'd
     \<Rightarrow> ('f, 'e, 't, 'c) VisualOdometry \<Rightarrow> vo_error + ('f, 'e, 't, 'c) VisualOdometry" where
  "enterFrame env gray depth_source s =
     (case adaptThreshold env (detectFeatures env gray depth_source (beginFrame env s)) of
        Inl e \<Rightarrow> Inl e
      | Inr s1 \<Rightarrow>
          if \<not> is_int (frame_count s1 + 1) then Inl SignedOverflow
          else Inr (s1\<lparr>frame_count := frame_count s1 + 1\<rparr>))"

text \<open>Lines 219 to 244: the initial rotation and the estimate against the reference
  frame; the result is the local \<^verbatim>\<open>init_rotation_est\<close> and the object at line 246.\<close>

definition firstAttempt ::
  "('f, 'e, 't, 'c, 'q, 'd, 'g, 'l) collaborators \<Rightarrow> 'd \<Rightarrow> bool
     \<Rightarrow> ('f, 'e, 't, 'c) VisualOdometry \<Rightarrow> 'q \<times> ('f, 'e, 't, 'c) VisualOdometry" where
  "firstAttempt env depth_source changed_reference_frames s =
     (let (init_rotation_est, s1) = initialRotation env changed_reference_frames s
      in (init_rotation_est, estimateAgainstReference env depth_source init_rotation_est s1))"

text \<open>Lines 246 to 284: the use of the estimate, the second attempt and the decision on
  the reference frame.\<close>

definition finishFrame ::
  "('f, 'e, 't, 'c, 'q, 'd, 'g, 'l) collaborators \<Rightarrow> 'd \<Rightarrow> bool \<Rightarrow> 'q
     \<Rightarrow> ('f, 'e, 't, 'c) VisualOdometry \<Rightarrow> ('f, 'e, 't, 'c) VisualOdometry" where
  "finishFrame env depth_source changed_reference_frames init_rotation_est s =
     switchReference env
       (if isMotionEstimateValid env (estimator s) then acceptReferenceEstimate env s
        else if \<not> changed_reference_frames
        then estimateAgainstPrevious env depth_source init_rotation_est s
        else s)"

definition matchFrame ::
  "('f, 'e, 't, 'c, 'q, 'd, 'g, 'l) collaborators \<Rightarrow> 'd \<Rightarrow> bool
     \<Rightarrow> ('f, 'e, 't, 'c) VisualOdometry \<Rightarrow> ('f, 'e, 't, 'c) VisualOdometry" where
  "matchFrame env depth_source changed_reference_frames s =
     (let (init_rotation_est, s1) = firstAttempt env depth_source changed_reference_frames s
      in finishFrame env depth_source changed_reference_frames init_rotation_est s1)"

text \<open>\<^verbatim>\<open>VisualOdometry::processFrame(gray, depth_source)\<close>, lines 175 to 284.\<close>

definition processFrame ::
  "('f, 'e, 't, 'c, 'q, 'd, 'g, 'l) collaborators \<Rightarrow> 'g \<Rightarrow> 'd
     \<Rightarrow> ('f, 'e, 't, 'c) VisualOdometry \<Rightarrow> vo_error + ('f, 'e, 't, 'c) VisualOdometry" where
  "processFrame env gray depth_source s =
     (let changed_reference_frames = change_reference_frames s
      in case enterFrame env gray depth_source s of
           Inl e \<Rightarrow> Inl e
         | Inr s1 \<Rightarrow>
             if frame_count s1 < 2 then Inr (s1\<lparr>change_reference_frames := True\<rparr>)
             else Inr (matchFrame env depth_source changed_reference_frames s1))"

subsection \<open>Options and construction\<close>

text \<open>\<^verbatim>\<open>getDefaultOptions\<close>, lines 301 to 338. \<^verbatim>\<open>_toString\<close> prints a
  \<^verbatim>\<open>double\<close> with \<^verbatim>\<open>%f\<close>, that is with six decimals.\<close>

definition getDefaultOptions :: VisualOdometryOptions where
  "getDefaultOptions =
     [(''feature-window-size'', ''9''),
      (''max-pyramid-level'', ''3''),
      (''min-pyramid-level'', ''0''),
      (''target-pixels-per-feature'', ''250''),
      (''fast-threshold'', ''20''),
      (''use-adaptive-threshold'', ''true''),
      (''fast-threshold-adaptive-gain'', ''0.005000''),
      (''use-homography-initialization'', ''true''),
      (''ref-frame-change-threshold'', ''150''),
      (''use-bucketing'', ''true''),
      (''bucket-width'', ''80''),
      (''bucket-height'', ''80''),
      (''max-keypoints-per-bucket'', ''25''),
      (''use-image-normalization'', ''false''),
      (''inlier-max-reprojection-error'', ''1.500000''),
      (''clique-inlier-threshold'', ''0.100000''),
      (''min-features-for-estimate'', ''10''),
      (''max-mean-reprojection-error'', ''10.000000''),
      (''use-subpixel-refinement'', ''true''),
      (''feature-search-window'', ''25''),
      (''update-target-features-with-refined'', ''false''),
      (''stereo-require-mutual-match'', ''true''),
      (''stereo-max-dist-epipolar-line'', ''1.500000''),
      (''stereo-max-refinement-displacement'', ''1.000000''),
      (''stereo-max-disparity'', ''128'')]"

text \<open>\<^verbatim>\<open>c_str()\<close> read as a C string, as \<^verbatim>\<open>%s\<close> does: the characters before the
  first NUL.\<close>

definition c_str :: "string \<Rightarrow> string" where
  "c_str s = takeWhile (\<lambda>c. c \<noteq> CHR 0x00) s"

text \<open>The line that \<^verbatim>\<open>validateOptions\<close> prints to \<^verbatim>\<open>stderr\<close> for a key
  (line 348).\<close>

definition unrecognized_option_warning :: "string \<Rightarrow> string" where
  "unrecognized_option_warning key =
     ''VisualOdometry WARNING: unrecognized option ['' @ c_str key @ '']'' @ [CHR 0x0A]"

text \<open>\<^verbatim>\<open>validateOptions\<close>, lines 340 to 353: the loop over the entries of
  \<^verbatim>\<open>options\<close>; the result is what it prints, in order.\<close>

fun validateOptions :: "VisualOdometryOptions \<Rightarrow> VisualOdometryOptions \<Rightarrow> string list" where
  "validateOptions [] defaults = []"
| "validateOptions ((key, v) # rest) defaults =
     (if map_of defaults key = None
      then unrecognized_option_warning key # validateOptions rest defaults
      else validateOptions rest defaults)"

text \<open>Modelled from the spec: \<^verbatim>\<open>optionsGetIntOrFromDefault\<close>,
  \<^verbatim>\<open>optionsGetBoolOrFromDefault\<close> and \<^verbatim>\<open>optionsGetDoubleOrFromDefault\<close> are
  declared in \<^verbatim>\<open>internal_utils.hpp\<close>, which is not among the sources. The spec
  (section 7, InvalidConfiguration) says of a missing or invalid value: log a warning and
  continue with the default. The model reads the entry of \<open>options\<close> with the parser
  of the value's type and falls back to the entry of \<open>defaults\<close>; a default that is
  absent or does not parse is an error.\<close>

definition optionsGetOrFromDefault ::
  "(string \<Rightarrow> 'a option) \<Rightarrow> VisualOdometryOptions \<Rightarrow> string \<Rightarrow> VisualOdometryOptions
     \<Rightarrow> vo_error + 'a" where
  "optionsGetOrFromDefault parse opts name defaults =
     (case Option.bind (map_of opts name) parse of
        Some v \<Rightarrow> Inr v
      | None \<Rightarrow>
          (case Option.bind (map_of defaults name) parse of
             Some v \<Rightarrow> Inr v
           | None \<Rightarrow> Inl (MissingDefault name)))"

definition optionsGetIntOrFromDefault ::
  "('f, 'e, 't, 'c, 'q, 'd, 'g, 'l) collaborators
     \<Rightarrow> VisualOdometryOptions \<Rightarrow> string \<Rightarrow> VisualOdometryOptions \<Rightarrow> vo_error + int" where
  "optionsGetIntOrFromDefault env = optionsGetOrFromDefault (parseInt env)"

definition optionsGetBoolOrFromDefault ::
  "('f, 'e, 't, 'c, 'q, 'd, 'g, 'l) collaborators
     \<Rightarrow> VisualOdometryOptions \<Rightarrow> string \<Rightarrow> VisualOdometryOptions \<Rightarrow> vo_error + bool" where
  "optionsGetBoolOrFromDefault env = optionsGetOrFromDefault (parseBool env)"

definition optionsGetDoubleOrFromDefault ::
  "('f, 'e, 't, 'c, 'q, 'd, 'g, 'l) collaborators
     \<Rightarrow> VisualOdometryOptions \<Rightarrow> string \<Rightarrow> VisualOdometryOptions \<Rightarrow> vo_error + double" where
  "optionsGetDoubleOrFromDefault env = optionsGetOrFromDefault (parseDouble env)"

definition bind_err :: "'x + 'a \<Rightarrow> ('a \<Rightarrow> 'x + 'b) \<Rightarrow> 'x + 'b" where
  "bind_err m f = (case m of Inl e \<Rightarrow> Inl e | Inr v \<Rightarrow> f v)"

text \<open>The constructor, lines 61 to 112. It returns what \<^verbatim>\<open>validateOptions\<close> printed
  and the object. The three frames are three allocations: the handles 0, 1 and 2.
  (The calls of \<^verbatim>\<open>_clearfp\<close> and \<^verbatim>\<open>_controlfp\<close> change the floating-point
  environment of the process, which the model does not have.)\<close>

definition VisualOdometry_new ::
  "('f, 'e, 't, 'c, 'q, 'd, 'g, 'l) collaborators
     \<Rightarrow> CameraIntrinsicsParameters \<Rightarrow> VisualOdometryOptions
     \<Rightarrow> vo_error + (string list \<times> ('f, 'e, 't, 'c) VisualOdometry)" where
  "VisualOdometry_new env prms opts =
     (let defaults = getDefaultOptions;
          warnings = validateOptions opts defaults
      in
      bind_err (optionsGetIntOrFromDefault env opts ''feature-window-size'' defaults) (\<lambda>fws.
      bind_err (optionsGetIntOrFromDefault env opts ''max-pyramid-level'' defaults) (\<lambda>npl.
      bind_err (optionsGetIntOrFromDefault env opts ''target-pixels-per-feature'' defaults) (\<lambda>tppf.
      bind_err (optionsGetIntOrFromDefault env opts ''ref-frame-change-threshold'' defaults) (\<lambda>rfct.
      bind_err (optionsGetBoolOrFromDefault env opts ''use-homography-initialization'' defaults) (\<lambda>uhi.
      bind_err (optionsGetIntOrFromDefault env opts ''fast-threshold'' defaults) (\<lambda>ft.
      bind_err (optionsGetBoolOrFromDefault env opts ''use-adaptive-threshold'' defaults) (\<lambda>uat.
      bind_err (optionsGetDoubleOrFromDefault env opts ''fast-threshold-adaptive-gain'' defaults) (\<lambda>gain.
      Inr (warnings,
        \<lparr>options = opts,
         params = prms,
         frames = (\<lambda>h. new_OdometryFrame env prms opts),
         ref_frame = 0,
         prev_frame = 1,
         cur_frame = 2,
         estimator = new_MotionEstimator env prms opts,
         change_reference_frames = False,
         ref_frame_change_threshold = rfct,
         frame_count = 0,
         feature_window_size = fws,
         num_pyramid_levels = npl,
         target_pixels_per_feature = tppf,
         use_homography_initialization = uhi,
         fast_threshold = ft,
         use_adaptive_threshold = uat,
         fast_threshold_adaptive_gain = gain,
         fast_threshold_min = 5,
         fast_threshold_max = 70,
         initial_rotation_pyramid_level = indeterminate_int env,
         motion_estimate = iso_Identity env,
         motion_estimate_covariance = cov_Identity6 env,
         pose = iso_Identity env,
         ref_to_prev_frame = iso_Identity env,
         initial_motion_estimate = indeterminate_iso env,
         initial_motion_cov = indeterminate_cov env,
         initial_homography_est = indeterminate_mat3 env\<rparr>))))))))))"


subsection \<open>Runs of frames\<close>

text \<open>The caller's loop: one \<^verbatim>\<open>processFrame\<close> per image, stopping at an error.\<close>

fun processFrames ::
  "('f, 'e, 't, 'c, 'q, 'd, 'g, 'l) collaborators \<Rightarrow> ('g \<times> 'd) list
     \<Rightarrow> ('f, 'e, 't, 'c) VisualOdometry \<Rightarrow> vo_error + ('f, 'e, 't, 'c) VisualOdometry" where
  "processFrames env [] s = Inr s"
| "processFrames env ((gray, depth_source) # rest) s =
     (case processFrame env gray depth_source s of
        Inl e \<Rightarrow> Inl e
      | Inr s' \<Rightarrow> processFrames env rest s')"

text \<open>The inter-frame motions that the driver reports (\<^verbatim>\<open>getMotionEstimate\<close> of the
  driver, the member \<^verbatim>\<open>motion_estimate\<close>) after each frame of a run.\<close>

fun reportedMotions ::
  "('f, 'e, 't, 'c, 'q, 'd, 'g, 'l) collaborators \<Rightarrow> ('g \<times> 'd) list
     \<Rightarrow> ('f, 'e, 't, 'c) VisualOdometry \<Rightarrow> 't list" where
  "reportedMotions env [] s = []"
| "reportedMotions env ((gray, depth_source) # rest) s =
     (case processFrame env gray depth_source s of
        Inl e \<Rightarrow> []
      | Inr s' \<Rightarrow> motion_estimate s' # reportedMotions env rest s')"

text \<open>A frame is normal when it is not the first frame, the estimate against the
  reference frame (the object at line 246) is valid and its inliers reach
  \<^verbatim>\<open>_ref_frame_change_threshold\<close>; a run is normal when each of its frames is.\<close>

definition isNormalFrame ::
  "('f, 'e, 't, 'c, 'q, 'd, 'g, 'l) collaborators \<Rightarrow> 'g \<Rightarrow> 'd
     \<Rightarrow> ('f, 'e, 't, 'c) VisualOdometry \<Rightarrow> bool" where
  "isNormalFrame env gray depth_source s =
     (case enterFrame env gray depth_source s of
        Inl e \<Rightarrow> False
      | Inr s1 \<Rightarrow>
          2 \<le> frame_count s1
          \<and> isMotionEstimateValid env
               (estimator (snd (firstAttempt env depth_source (change_reference_frames s) s1)))
          \<and> ref_frame_change_threshold s
               \<le> getNumInliers env
                    (estimator (snd (firstAttempt env depth_source (change_reference_frames s) s1))))"

fun normalRun ::
  "('f, 'e, 't, 'c, 'q, 'd, 'g, 'l) collaborators \<Rightarrow> ('g \<times> 'd) list
     \<Rightarrow> ('f, 'e, 't, 'c) VisualOdometry \<Rightarrow> bool" where
  "normalRun env [] s = True"
| "normalRun env ((gray, depth_source) # rest) s =
     (isNormalFrame env gray depth_source s
      \<and> (case processFrame env gray depth_source s of
            Inl e \<Rightarrow> False
          | Inr s' \<Rightarrow> normalRun env rest s'))"

subsection \<open>Test doubles\<close>

text \<open>Concrete collaborators for the examples. A rigid motion is a word over the
  integers, composed by concatenation (a monoid that does not commute, so the order of a
  product shows); a frame is the number of corners found in it and an image is the number
  of corners it holds; every frame has three pyramid levels, a level being its index. The
  homography tracker returns its initial homography scaled by the index of the template
  level, plus a shift by the number of iterations; the stand-ins for \<^verbatim>\<open>asin\<close> and
  \<^verbatim>\<open>atan2\<close> are linear and a quaternion lists the three angles in thousandths. The
  motion estimator is scripted: it holds the results of its coming calls, each a validity
  flag, a motion and an inlier count, and the result of its last call. The parser of
  doubles reads the default gain as the double nearest to 0.005, which is
  \<open>5764607523034235 / 2 ^ 60\<close>.\<close>

type_synonym estimate = "bool \<times> int list \<times> int"

type_synonym scripted_estimator = "estimate list \<times> estimate"

definition test_env ::
  "estimate list
     \<Rightarrow> (int, scripted_estimator, int list, nat, int list, unit, int, int) collaborators" where
  "test_env script =
     \<lparr>iso_Identity = [],
      iso_mul = (\<lambda>a b. a @ b),
      iso_inverse = (\<lambda>a. rev (map uminus a)),
      iso_rotate = (\<lambda>a q. a @ q),
      quat_Identity = [],
      rpy_to_quat = (\<lambda>(r, p, y). [\<lfloor>1000 * r\<rfloor>, \<lfloor>1000 * p\<rfloor>, \<lfloor>1000 * y\<rfloor>]),
      cov_Identity6 = 6,
      cov_setIdentity = (\<lambda>c. c),
      c_asin = (\<lambda>x. x),
      c_atan2 = (\<lambda>y x. y + x),
      new_OdometryFrame = (\<lambda>prms opts. 0),
      prepareFrame = (\<lambda>f gray thr depth_source. gray),
      getNumDetectedKeypoints = (\<lambda>f. f),
      getNumLevels = (\<lambda>f. 3),
      getLevel = (\<lambda>f k. k),
      homography_track = (\<lambda>ref_level ds target_level dt H n.
         (\<lambda>i j. real_of_int ref_level * H i j + (if i < 2 \<and> j = 2 then real_of_int n else 0))),
      new_MotionEstimator = (\<lambda>prms opts. (script, (False, [], 0))),
      estimateMotion = (\<lambda>e fs r c depth_source init cov.
         (case fst e of [] \<Rightarrow> ([], (False, [], 0)) | x # xs \<Rightarrow> (xs, x), fs)),
      isMotionEstimateValid = (\<lambda>e. fst (snd e)),
      getMotionEstimate = (\<lambda>e. fst (snd (snd e))),
      getMotionEstimateCov = (\<lambda>e. 0),
      getNumInliers = (\<lambda>e. snd (snd (snd e))),
      parseInt = map_of [(''0'', 0), (''3'', 3), (''9'', 9), (''20'', 20), (''40'', 40),
                         (''150'', 150), (''250'', 250)],
      parseBool = map_of [(''true'', True), (''false'', False)],
      parseDouble = map_of [(''0.005000'', Finite 5764607523034235 (- 60))],
      indeterminate_int = 0,
      indeterminate_iso = [],
      indeterminate_cov = 0,
      indeterminate_mat3 = (\<lambda>i j. 0)\<rparr>"

definition test_params :: CameraIntrinsicsParameters where
  "test_params = \<lparr>width = 640, height = 480, fx = 500, fy = 500, cx = 320, cy = 240\<rparr>"

text \<open>The driver as constructed from \<open>opts\<close> with the scripted estimator.\<close>

definition test_vo ::
  "estimate list \<Rightarrow> VisualOdometryOptions
     \<Rightarrow> (int, scripted_estimator, int list, nat) VisualOdometry" where
  "test_vo script opts = snd (projr (VisualOdometry_new (test_env script) test_params opts))"

text \<open>Options that switch the threshold controller and the homography off.\<close>

definition plain_options :: VisualOdometryOptions where
  "plain_options =
     [(''use-adaptive-threshold'', ''false''), (''use-homography-initialization'', ''false'')]"

text \<open>The driver after the images of a run (each image given by its number of corners),
  built with \<open>plain_options\<close>.\<close>

definition test_run ::
  "estimate list \<Rightarrow> int list \<Rightarrow> (int, scripted_estimator, int list, nat) VisualOdometry" where
  "test_run script images =
     projr (processFrames (test_env script) (map (\<lambda>g. (g, ())) images)
              (test_vo script plain_options))"

text \<open>An estimator whose first estimate fails and whose second would succeed.\<close>

definition failing_script :: "estimate list" where
  "failing_script = [(False, [], 0), (True, [7], 200)]"

text \<open>An estimator whose first estimate is accepted, whose second fails and whose
  third succeeds.\<close>

definition fallback_script :: "estimate list" where
  "fallback_script = [(True, [1], 200), (False, [], 0), (True, [7], 180)]"

text \<open>An estimator that succeeds with 50 inliers, fewer than the default threshold of
  150.\<close>

definition low_inlier_script :: "estimate list" where
  "low_inlier_script = [(True, [5], 50)]"

text \<open>An estimator that succeeds three times with 200 inliers.\<close>

definition normal_script :: "estimate list" where
  "normal_script = [(True, [1], 200), (True, [2], 200), (True, [3], 200)]"


text \<open>The driver constructed with the default options, after a first image with 1378
  corners.\<close>

definition after_first_frame :: "(int, scripted_estimator, int list, nat) VisualOdometry" where
  "after_first_frame = projr (processFrames (test_env []) [(1378, ())] (test_vo [] []))"

section \<open>Properties\<close>

subsection \<open>Double-precision numbers\<close>

text \<open>The conversion to \<^verbatim>\<open>int\<close> truncates the value towards zero; rounding returns a
  neighbour within half a unit of the last place; integers below \<open>2 ^ 53\<close> are
  doubles.\<close>

lemma double_to_int_truncates:
  "double_to_int (Finite m e) =
     Some (if 0 \<le> double_value (Finite m e) then \<lfloor>double_value (Finite m e)\<rfloor>
           else \<lceil>double_value (Finite m e)\<rceil>)"
proof (cases "0 \<le> e")
  case True
  then have v: "double_value (Finite m e) = real_of_int (m * 2 ^ nat e)"
    by (simp add: powr_realpow[symmetric])
  have f: "\<lfloor>double_value (Finite m e)\<rfloor> = m * 2 ^ nat e"
    "\<lceil>double_value (Finite m e)\<rceil> = m * 2 ^ nat e"
    unfolding v by (simp_all only: floor_of_int ceiling_of_int)
  have d: "double_to_int (Finite m e) = Some (m * 2 ^ nat e)"
    using True by simp
  show ?thesis unfolding d f by simp
next
  case False
  define n where "n = nat (- e)"
  have e: "e = - int n" using False by (simp add: n_def)
  have v: "double_value (Finite m e) = real_of_int m / 2 ^ n"
    by (simp add: e powr_minus powr_realpow divide_inverse)
  have fl: "\<lfloor>real_of_int a / 2 ^ n\<rfloor> = a div 2 ^ n" for a :: int
    using floor_divide_of_int_eq[of a "2 ^ n", where ?'a = real] by simp
  have d: "double_to_int (Finite m e) = Some (sgn m * (\<bar>m\<bar> div 2 ^ n))"
    using False by (simp add: n_def)
  show ?thesis
  proof (cases "0 \<le> m")
    case True
    have nonneg: "0 \<le> double_value (Finite m e)"
      unfolding v using True by simp
    have "\<lfloor>double_value (Finite m e)\<rfloor> = sgn m * (\<bar>m\<bar> div 2 ^ n)"
      unfolding v using True fl[of m] by (cases "m = 0") (simp_all add: sgn_if)
    then show ?thesis
      unfolding d by (simp only: nonneg if_True)
  next
    case mneg: False
    have neg: "\<not> 0 \<le> double_value (Finite m e)"
      unfolding v using mneg by (simp add: divide_neg_pos not_le)
    have "\<lceil>real_of_int m / 2 ^ n\<rceil> = - \<lfloor>real_of_int (- m) / 2 ^ n\<rfloor>"
      by (simp add: ceiling_def)
    also have "\<dots> = - ((- m) div 2 ^ n)"
      by (simp only: fl)
    finally have "\<lceil>double_value (Finite m e)\<rceil> = sgn m * (\<bar>m\<bar> div 2 ^ n)"
      unfolding v using mneg by (simp add: sgn_if)
    then show ?thesis
      unfolding d by (simp only: neg if_False)
  qed
qed


lemma round_half_even_nearest:
  "2 * \<bar>round_half_even M k * 2 ^ k - M\<bar> \<le> 2 ^ k"
proof -
  define q where "q = M div 2 ^ k"
  define r where "r = M mod 2 ^ k"
  have M: "M = q * 2 ^ k + r"
    unfolding q_def r_def by (rule div_mult_mod_eq[symmetric])
  have r: "0 \<le> r" "r < 2 ^ k" by (simp_all add: r_def)
  show ?thesis
    unfolding round_half_even_def Let_def q_def[symmetric] r_def[symmetric]
    using r by (auto simp: M algebra_simps)
qed

lemma bit_length_nonneg: "0 \<le> bit_length m"
  by (induction m rule: bit_length.induct) (subst bit_length.simps, simp)

lemma bit_length_bounds:
  "0 < m \<Longrightarrow> 2 ^ nat (bit_length m - 1) \<le> m \<and> m < 2 ^ nat (bit_length m)"
proof (induction m rule: bit_length.induct)
  case (1 m)
  show ?case
  proof (cases "m = 1")
    case True
    have "bit_length (1 div 2) = 0" by (subst bit_length.simps) simp
    then have "bit_length 1 = 1" by (subst bit_length.simps) simp
    then show ?thesis using True by simp
  next
    case False
    with "1.prems" have h: "0 < m div 2" by simp
    have b: "bit_length m = 1 + bit_length (m div 2)"
      using "1.prems" by (subst bit_length.simps) simp
    from "1.IH" h "1.prems"
    have ih: "2 ^ nat (bit_length (m div 2) - 1) \<le> m div 2" "m div 2 < 2 ^ nat (bit_length (m div 2))"
      by simp_all
    have pos: "1 \<le> bit_length (m div 2)"
      using h bit_length_nonneg[of "m div 2 div 2"]
      by (subst bit_length.simps) simp
    have n1: "nat (bit_length m - 1) = Suc (nat (bit_length (m div 2) - 1))"
      using pos b by simp
    have n2: "nat (bit_length m) = Suc (nat (bit_length (m div 2)))"
      using pos b by simp
    show ?thesis
      unfolding n1 n2 using ih by simp linarith
  qed
qed

lemma double_of_int_exact:
  assumes "\<bar>n\<bar> < 2 ^ 53"
  shows "double_of_int n = Finite n 0"
proof -
  have bl: "bit_length \<bar>n\<bar> \<le> 53"
  proof (cases "n = 0")
    case True
    then show ?thesis by (subst bit_length.simps) simp
  next
    case False
    then have "2 ^ nat (bit_length \<bar>n\<bar> - 1) \<le> \<bar>n\<bar>"
      using bit_length_bounds[of "\<bar>n\<bar>"] by simp
    with assms have lt: "(2::int) ^ nat (bit_length \<bar>n\<bar> - 1) < 2 ^ 53" by linarith
    have "\<not> 53 \<le> nat (bit_length \<bar>n\<bar> - 1)"
    proof
      assume "53 \<le> nat (bit_length \<bar>n\<bar> - 1)"
      then have "(2::int) ^ 53 \<le> 2 ^ nat (bit_length \<bar>n\<bar> - 1)"
        by (rule power_increasing) simp
      with lt show False by linarith
    qed
    then show ?thesis by simp
  qed
  then have k: "nat (max (bit_length \<bar>n\<bar> - 53) (- 1074 - 0)) = 0" by simp
  have r: "round_half_even n 0 = n" by (simp add: round_half_even_def)
  show ?thesis
    unfolding double_of_int_def double_round_def Let_def k r using bl by simp
qed

lemma double_value_negative_exponent:
  "double_value (Finite m (- int n)) = real_of_int m / 2 ^ n"
  by (simp add: powr_minus powr_realpow divide_inverse)

text \<open>Products with the double nearest to 0.005, evaluated.\<close>

lemma default_gain_products:
  "double_mul (double_of_int 150) (Finite 5764607523034235 (- 60)) = Finite 6755399441055744 (- 53)"
  "double_to_int (double_mul (double_of_int 150) (Finite 5764607523034235 (- 60))) = Some 0"
  "double_to_int (double_mul (double_of_int (- 228)) (Finite 5764607523034235 (- 60))) = Some (- 1)"
  by code_simp+

text \<open>Two products whose rounding decides the integer: the double nearest to 0.29 times
  100 is just below 29, and the double nearest to 0.3 times 10 rounds to 3.\<close>

lemma rounded_products:
  "double_to_int (double_mul (double_of_int 100) (Finite 5224175567749775 (- 54))) = Some 28"
  "double_to_int (double_mul (double_of_int 10) (Finite 5404319552844595 (- 54))) = Some 3"
  by code_simp+

subsection \<open>What each part of processFrame changes\<close>

lemmas enter_defs =
  enterFrame_def adaptThreshold_def detectFeatures_def beginFrame_def rotateFrames_def

lemma enterFrame_kept:
  assumes "enterFrame env gray depth_source s = Inr s1"
  shows "pose s1 = pose s" and "estimator s1 = estimator s"
    and "frame_count s1 = frame_count s + 1"
    and "params s1 = params s" and "options s1 = options s"
    and "ref_frame_change_threshold s1 = ref_frame_change_threshold s"
    and "use_homography_initialization s1 = use_homography_initialization s"
    and "use_adaptive_threshold s1 = use_adaptive_threshold s"
    and "fast_threshold_min s1 = fast_threshold_min s"
    and "fast_threshold_max s1 = fast_threshold_max s"
    and "initial_homography_est s1 = initial_homography_est s"
    and "initial_rotation_pyramid_level s1 = initial_rotation_pyramid_level s"
    and "initial_motion_estimate s1 = initial_motion_estimate s"
    and "initial_motion_cov s1 = initial_motion_cov s"
    and "motion_estimate_covariance s1 = motion_estimate_covariance s"
  using assms
  by (auto simp: enter_defs Let_def split: if_splits sum.splits option.splits)

lemma enterFrame_reset:
  assumes "enterFrame env gray depth_source s = Inr s1"
  shows "\<not> change_reference_frames s1" and "motion_estimate s1 = iso_Identity env"
    and "ref_to_prev_frame s1 =
           (if change_reference_frames s then iso_Identity env else ref_to_prev_frame s)"
  using assms
  by (auto simp: enter_defs Let_def split: if_splits sum.splits option.splits)

lemma enterFrame_handles:
  assumes "enterFrame env gray depth_source s = Inr s1"
  shows "ref_frame s1 = (if change_reference_frames s then cur_frame s else ref_frame s)"
    and "cur_frame s1 = (if change_reference_frames s then ref_frame s else prev_frame s)"
    and "prev_frame s1 = (if change_reference_frames s then prev_frame s else cur_frame s)"
    and "frames s1 = (frames s)(cur_frame s1 :=
           prepareFrame env (frames s (cur_frame s1)) gray (fast_threshold s) depth_source)"
  using assms
  by (auto simp: enter_defs Let_def split: if_splits sum.splits option.splits)

lemma estimateInitialRotation_kept:
  assumes "estimateInitialRotation env a b s = (q, s1)"
  shows "pose s1 = pose s" and "estimator s1 = estimator s" and "frames s1 = frames s"
    and "frame_count s1 = frame_count s" and "params s1 = params s"
    and "ref_frame s1 = ref_frame s" and "cur_frame s1 = cur_frame s"
    and "prev_frame s1 = prev_frame s"
    and "ref_frame_change_threshold s1 = ref_frame_change_threshold s"
    and "change_reference_frames s1 = change_reference_frames s"
    and "motion_estimate s1 = motion_estimate s"
    and "ref_to_prev_frame s1 = ref_to_prev_frame s"
    and "initial_motion_cov s1 = initial_motion_cov s"
    and "fast_threshold s1 = fast_threshold s"
  using assms
  by (auto simp: estimateInitialRotation_def Let_def)

lemma initialRotation_kept:
  assumes "initialRotation env ch s = (q, s1)"
  shows "pose s1 = pose s" and "estimator s1 = estimator s" and "frames s1 = frames s"
    and "frame_count s1 = frame_count s" and "params s1 = params s"
    and "ref_frame s1 = ref_frame s" and "cur_frame s1 = cur_frame s"
    and "prev_frame s1 = prev_frame s"
    and "ref_frame_change_threshold s1 = ref_frame_change_threshold s"
    and "change_reference_frames s1 = change_reference_frames s"
    and "motion_estimate s1 = motion_estimate s"
    and "ref_to_prev_frame s1 = ref_to_prev_frame s"
    and "initial_motion_cov s1 = initial_motion_cov s"
    and "fast_threshold s1 = fast_threshold s"
  using assms estimateInitialRotation_kept[of env _ _ s q s1]
  by (auto simp: initialRotation_def split: if_splits)

lemma firstAttempt_kept:
  assumes "firstAttempt env depth_source ch s = (q, s2)"
  shows "pose s2 = pose s"
    and "frame_count s2 = frame_count s" and "params s2 = params s"
    and "ref_frame s2 = ref_frame s" and "cur_frame s2 = cur_frame s"
    and "prev_frame s2 = prev_frame s"
    and "ref_frame_change_threshold s2 = ref_frame_change_threshold s"
    and "change_reference_frames s2 = change_reference_frames s"
    and "motion_estimate s2 = motion_estimate s"
    and "ref_to_prev_frame s2 = ref_to_prev_frame s"
    and "fast_threshold s2 = fast_threshold s"
  using assms initialRotation_kept[of env ch s]
  by (auto simp: firstAttempt_def estimateAgainstReference_def Let_def split: prod.splits)

lemma processFrame_finish:
  assumes "enterFrame env gray depth_source s = Inr s1" and "1 \<le> frame_count s"
    and "firstAttempt env depth_source (change_reference_frames s) s1 = (q, s2)"
  shows "processFrame env gray depth_source s =
           Inr (finishFrame env depth_source (change_reference_frames s) q s2)"
  using assms enterFrame_kept(3)[OF assms(1)]
  by (simp add: processFrame_def matchFrame_def)

lemma finishFrame_kept:
  "ref_frame_change_threshold (finishFrame env depth_source ch q s2) = ref_frame_change_threshold s2"
  "ref_frame (finishFrame env depth_source ch q s2) = ref_frame s2"
  "cur_frame (finishFrame env depth_source ch q s2) = cur_frame s2"
  "prev_frame (finishFrame env depth_source ch q s2) = prev_frame s2"
  "frame_count (finishFrame env depth_source ch q s2) = frame_count s2"
  by (simp_all add: finishFrame_def switchReference_def acceptReferenceEstimate_def
      estimateAgainstPrevious_def Let_def split: prod.splits)

lemma finishFrame_pose:
  "pose (finishFrame env depth_source ch q s2) =
     (if isMotionEstimateValid env (estimator (finishFrame env depth_source ch q s2))
      then iso_mul env (pose s2) (motion_estimate (finishFrame env depth_source ch q s2))
      else pose s2)"
  by (simp add: finishFrame_def switchReference_def acceptReferenceEstimate_def
      estimateAgainstPrevious_def Let_def split: prod.splits)

lemma finishFrame_flag:
  "\<not> isMotionEstimateValid env (estimator (finishFrame env depth_source ch q s2))
     \<or> getNumInliers env (estimator (finishFrame env depth_source ch q s2)) < ref_frame_change_threshold s2
   \<Longrightarrow> change_reference_frames (finishFrame env depth_source ch q s2)"
  by (auto simp add: finishFrame_def switchReference_def acceptReferenceEstimate_def
      estimateAgainstPrevious_def Let_def split: prod.splits if_splits)

lemma normal_frame:
  assumes "isNormalFrame env gray depth_source s"
  shows "\<exists>s'. processFrame env gray depth_source s = Inr s'
          \<and> pose s' = iso_mul env (pose s) (motion_estimate s')
          \<and> \<not> change_reference_frames s'
          \<and> ref_frame s' = (if change_reference_frames s then cur_frame s else ref_frame s)"
proof -
  obtain s1 where s1: "enterFrame env gray depth_source s = Inr s1"
    using assms by (auto simp: isNormalFrame_def split: sum.splits)
  obtain q s2 where s2: "firstAttempt env depth_source (change_reference_frames s) s1 = (q, s2)"
    by (cases "firstAttempt env depth_source (change_reference_frames s) s1")
  have n: "1 \<le> frame_count s" "isMotionEstimateValid env (estimator s2)"
    "ref_frame_change_threshold s2 \<le> getNumInliers env (estimator s2)"
    using assms s1 s2 enterFrame_kept(3,6)[OF s1] firstAttempt_kept(7)[OF s2]
    by (auto simp: isNormalFrame_def)
  have k: "pose s2 = pose s" "\<not> change_reference_frames s2"
    "ref_frame s2 = (if change_reference_frames s then cur_frame s else ref_frame s)"
    using firstAttempt_kept[OF s2] enterFrame_kept(1)[OF s1] enterFrame_reset(1)[OF s1]
      enterFrame_handles(1)[OF s1] by simp_all
  have "processFrame env gray depth_source s
          = Inr (finishFrame env depth_source (change_reference_frames s) q s2)"
    using processFrame_finish[OF s1 n(1) s2] .
  moreover have "finishFrame env depth_source (change_reference_frames s) q s2
                   = acceptReferenceEstimate env s2"
    using n by (simp add: finishFrame_def switchReference_def acceptReferenceEstimate_def Let_def)
  ultimately show ?thesis using k
    by (simp add: acceptReferenceEstimate_def Let_def)
qed

lemma finishFrame_threshold:
  "fast_threshold (finishFrame env depth_source ch q s2) = fast_threshold s2"
  by (simp add: finishFrame_def switchReference_def acceptReferenceEstimate_def
      estimateAgainstPrevious_def Let_def split: prod.splits)

lemma processFrame_threshold:
  assumes "processFrame env gray depth_source s = Inr s'"
  shows "\<exists>s1. enterFrame env gray depth_source s = Inr s1 \<and> fast_threshold s' = fast_threshold s1"
proof -
  obtain s1 where s1: "enterFrame env gray depth_source s = Inr s1"
    using assms by (auto simp: processFrame_def split: sum.splits)
  obtain q s2 where s2: "firstAttempt env depth_source (change_reference_frames s) s1 = (q, s2)"
    by (cases "firstAttempt env depth_source (change_reference_frames s) s1")
  show ?thesis
    using assms s1 s2 firstAttempt_kept(11)[OF s2]
    by (auto simp: processFrame_def matchFrame_def finishFrame_threshold split: if_splits)
qed

lemma clamp_bounds: "lo \<le> hi \<Longrightarrow> lo \<le> clamp x lo hi \<and> clamp x lo hi \<le> hi"
  by (simp add: clamp_def)

lemma enterFrame_threshold:
  assumes "enterFrame env gray depth_source s = Inr s1" and "use_adaptive_threshold s"
  shows "target_pixels_per_feature s \<noteq> 0"
    and "\<exists>thresh_adjustment.
          double_to_int
            (double_mul
               (double_of_int
                  (getNumDetectedKeypoints env
                     (prepareFrame env
                        (frames s (if change_reference_frames s then ref_frame s else prev_frame s))
                        gray (fast_threshold s) depth_source)
                   - c_div (width (params s) * height (params s)) (target_pixels_per_feature s)))
               (fast_threshold_adaptive_gain s)) = Some thresh_adjustment
          \<and> fast_threshold s1 =
                clamp (fast_threshold s + thresh_adjustment)
                  (fast_threshold_min s) (fast_threshold_max s)"
  using assms
  by (auto simp: enter_defs Let_def split: if_splits sum.splits option.splits)

lemma finishFrame_initial_estimate:
  "ch \<or> isMotionEstimateValid env (estimator s2) \<Longrightarrow>
     initial_motion_estimate (finishFrame env depth_source ch q s2) = initial_motion_estimate s2"
  by (auto simp add: finishFrame_def switchReference_def acceptReferenceEstimate_def Let_def)

lemma finishFrame_handles:
  "ref_frame (finishFrame env depth_source ch q s2) = ref_frame s2"
  "cur_frame (finishFrame env depth_source ch q s2) = cur_frame s2"
  "prev_frame (finishFrame env depth_source ch q s2) = prev_frame s2"
  by (simp_all add: finishFrame_def switchReference_def acceptReferenceEstimate_def
      estimateAgainstPrevious_def Let_def split: prod.splits)

lemma firstAttempt_initial_estimate:
  assumes "firstAttempt env depth_source ch s1 = (q, s2)"
  shows "initial_motion_estimate s2 = iso_rotate env (iso_inverse env (ref_to_prev_frame s1)) q"
  using assms initialRotation_kept(12)[of env ch s1]
  by (auto simp: firstAttempt_def estimateAgainstReference_def Let_def split: prod.splits)

lemma enterFrame_independent:
  "enterFrame (env\<lparr>estimateMotion := em, homography_track := ht\<rparr>) gray depth_source s
     = enterFrame env gray depth_source s"
proof -
  let ?env = "env\<lparr>estimateMotion := em, homography_track := ht\<rparr>"
  have "rotateFrames ?env s = rotateFrames env s"
    by (simp add: rotateFrames_def)
  then have "beginFrame ?env s = beginFrame env s"
    by (simp add: beginFrame_def)
  then have "detectFeatures ?env gray depth_source (beginFrame ?env s)
               = detectFeatures env gray depth_source (beginFrame env s)"
    by (simp add: detectFeatures_def)
  moreover have "adaptThreshold ?env x = adaptThreshold env x" for x
    by (simp add: adaptThreshold_def Let_def)
  ultimately show ?thesis
    by (simp add: enterFrame_def)
qed

lemma scale_entries:
  "mat_mul (mat_mul (scale_matrix 16) H0) (mat_inverse (scale_matrix 16)) 0 0 = H0 0 0"
  "mat_mul (mat_mul (scale_matrix 16) H0) (mat_inverse (scale_matrix 16)) 0 1 = H0 0 1"
  "mat_mul (mat_mul (scale_matrix 16) H0) (mat_inverse (scale_matrix 16)) 0 2 = 16 * H0 0 2"
  "mat_mul (mat_mul (scale_matrix 16) H0) (mat_inverse (scale_matrix 16)) 1 0 = H0 1 0"
  "mat_mul (mat_mul (scale_matrix 16) H0) (mat_inverse (scale_matrix 16)) 1 1 = H0 1 1"
  "mat_mul (mat_mul (scale_matrix 16) H0) (mat_inverse (scale_matrix 16)) 1 2 = 16 * H0 1 2"
  "mat_mul (mat_mul (scale_matrix 16) H0) (mat_inverse (scale_matrix 16)) 2 0 = H0 2 0 / 16"
  "mat_mul (mat_mul (scale_matrix 16) H0) (mat_inverse (scale_matrix 16)) 2 1 = H0 2 1 / 16"
  "mat_mul (mat_mul (scale_matrix 16) H0) (mat_inverse (scale_matrix 16)) 2 2 = H0 2 2"
  by (simp_all add: mat_mul_def mat_inverse_def scale_matrix_def mat_Identity_def
      mat_cofactor_def mat_det_def)





lemma bind_err_Inr:
  "bind_err m f = Inr r \<Longrightarrow> \<exists>v. m = Inr v \<and> f v = Inr r"
  by (cases m) (simp_all add: bind_err_def)

lemma constructed_state:
  assumes "VisualOdometry_new env prms opts = Inr (w, s)"
  shows "frame_count s = 0" and "pose s = iso_Identity env"
    and "\<not> change_reference_frames s"
    and "fast_threshold_min s = 5" and "fast_threshold_max s = 70"
    and "ref_frame s = 0" and "prev_frame s = 1" and "cur_frame s = 2"
  using assms unfolding VisualOdometry_new_def Let_def
  by (auto dest!: bind_err_Inr)

lemma finishFrame_threshold_bounds:
  "fast_threshold_min (finishFrame env depth_source ch q s2) = fast_threshold_min s2"
  "fast_threshold_max (finishFrame env depth_source ch q s2) = fast_threshold_max s2"
  by (simp_all add: finishFrame_def switchReference_def acceptReferenceEstimate_def
      estimateAgainstPrevious_def Let_def split: prod.splits)

lemma firstAttempt_threshold_bounds:
  assumes "firstAttempt env depth_source ch s = (q, s2)"
  shows "fast_threshold_min s2 = fast_threshold_min s"
    and "fast_threshold_max s2 = fast_threshold_max s"
  using assms
  by (auto simp: firstAttempt_def estimateAgainstReference_def initialRotation_def
      estimateInitialRotation_def Let_def split: prod.splits if_splits)

lemma processFrame_threshold_bounds:
  assumes "processFrame env gray depth_source s = Inr s'"
  shows "fast_threshold_min s' = fast_threshold_min s"
    and "fast_threshold_max s' = fast_threshold_max s"
proof -
  obtain s1 where s1: "enterFrame env gray depth_source s = Inr s1"
    using assms by (auto simp: processFrame_def split: sum.splits)
  obtain q s2 where s2: "firstAttempt env depth_source (change_reference_frames s) s1 = (q, s2)"
    by (cases "firstAttempt env depth_source (change_reference_frames s) s1")
  show "fast_threshold_min s' = fast_threshold_min s"
    and "fast_threshold_max s' = fast_threshold_max s"
    using assms s1 s2 firstAttempt_threshold_bounds[OF s2] enterFrame_kept(9,10)[OF s1]
    by (auto simp: processFrame_def matchFrame_def finishFrame_threshold_bounds split: if_splits)
qed

lemma processFrames_threshold_bounds:
  assumes "processFrames env images s = Inr s'"
  shows "fast_threshold_min s' = fast_threshold_min s \<and> fast_threshold_max s' = fast_threshold_max s"
  using assms
proof (induction images arbitrary: s)
  case Nil
  then show ?case by simp
next
  case (Cons im rest)
  obtain gray depth_source where im: "im = (gray, depth_source)" by (cases im)
  from Cons.prems im obtain s1 where
    s1: "processFrame env gray depth_source s = Inr s1" "processFrames env rest s1 = Inr s'"
    by (auto split: sum.splits)
  show ?case
    using Cons.IH[OF s1(2)] processFrame_threshold_bounds[OF s1(1)] by simp
qed

subsection \<open>The three frames\<close>

text \<open>A call permutes the three handles, so the frames of a constructed driver stay
  three different objects.\<close>

lemma processFrame_handles:
  assumes "processFrame env gray depth_source s = Inr s'"
  shows "ref_frame s' = (if change_reference_frames s then cur_frame s else ref_frame s)"
    and "cur_frame s' = (if change_reference_frames s then ref_frame s else prev_frame s)"
    and "prev_frame s' = (if change_reference_frames s then prev_frame s else cur_frame s)"
proof -
  obtain s1 where s1: "enterFrame env gray depth_source s = Inr s1"
    using assms by (auto simp: processFrame_def split: sum.splits)
  obtain q s2 where s2: "firstAttempt env depth_source (change_reference_frames s) s1 = (q, s2)"
    by (cases "firstAttempt env depth_source (change_reference_frames s) s1")
  have "ref_frame s' = ref_frame s1 \<and> cur_frame s' = cur_frame s1 \<and> prev_frame s' = prev_frame s1"
    using assms s1 s2 firstAttempt_kept[OF s2]
    by (auto simp: processFrame_def matchFrame_def finishFrame_handles split: if_splits)
  then show "ref_frame s' = (if change_reference_frames s then cur_frame s else ref_frame s)"
    and "cur_frame s' = (if change_reference_frames s then ref_frame s else prev_frame s)"
    and "prev_frame s' = (if change_reference_frames s then prev_frame s else cur_frame s)"
    using enterFrame_handles[OF s1] by simp_all
qed

lemma processFrames_handles_distinct:
  assumes "processFrames env images s = Inr s'"
    and "distinct [ref_frame s, prev_frame s, cur_frame s]"
  shows "distinct [ref_frame s', prev_frame s', cur_frame s']"
  using assms
proof (induction images arbitrary: s)
  case Nil
  then show ?case by simp
next
  case (Cons im rest)
  obtain gray depth_source where im: "im = (gray, depth_source)" by (cases im)
  from Cons.prems(1) im obtain s1 where
    s1: "processFrame env gray depth_source s = Inr s1" "processFrames env rest s1 = Inr s'"
    by (auto split: sum.splits)
  have "distinct [ref_frame s1, prev_frame s1, cur_frame s1]"
    using processFrame_handles[OF s1(1)] Cons.prems(2) by auto
  then show ?case using Cons.IH[OF s1(2)] by simp
qed

lemma constructed_handles_distinct:
  assumes "VisualOdometry_new env prms opts = Inr (w, s0)"
    and "processFrames env images s0 = Inr s"
  shows "distinct [ref_frame s, prev_frame s, cur_frame s]"
  using processFrames_handles_distinct[OF assms(2)] constructed_state(6,7,8)[OF assms(1)]
  by simp

subsection \<open>Evaluation of the examples\<close>

lemmas option_defs =
  VisualOdometry_new_def getDefaultOptions_def optionsGetIntOrFromDefault_def
  optionsGetBoolOrFromDefault_def optionsGetDoubleOrFromDefault_def
  optionsGetOrFromDefault_def bind_err_def

lemmas frame_defs =
  processFrame_def enterFrame_def adaptThreshold_def detectFeatures_def beginFrame_def
  rotateFrames_def matchFrame_def firstAttempt_def finishFrame_def initialRotation_def
  estimateAgainstReference_def acceptReferenceEstimate_def estimateAgainstPrevious_def
  switchReference_def is_int_def INT_MIN_def INT_MAX_def

lemma test_vo_plain:
  "test_vo script plain_options =
    \<lparr>options = plain_options,
     params = test_params,
     frames = (\<lambda>h. 0),
     ref_frame = 0,
     prev_frame = 1,
     cur_frame = 2,
     estimator = (script, (False, [], 0)),
     change_reference_frames = False,
     ref_frame_change_threshold = 150,
     frame_count = 0,
     feature_window_size = 9,
     num_pyramid_levels = 3,
     target_pixels_per_feature = 250,
     use_homography_initialization = False,
     fast_threshold = 20,
     use_adaptive_threshold = False,
     fast_threshold_adaptive_gain = Finite 5764607523034235 (- 60),
     fast_threshold_min = 5,
     fast_threshold_max = 70,
     initial_rotation_pyramid_level = 0,
     motion_estimate = [],
     motion_estimate_covariance = 6,
     pose = [],
     ref_to_prev_frame = [],
     initial_motion_estimate = [],
     initial_motion_cov = 0,
     initial_homography_est = (\<lambda>i j. 0)\<rparr>"
  by (simp add: test_vo_def option_defs test_env_def plain_options_def)

lemmas test_defs = test_run_def test_vo_plain frame_defs test_env_def Let_def

lemma test_vo_default:
  "test_vo script [] =
    \<lparr>options = [],
     params = test_params,
     frames = (\<lambda>h. 0),
     ref_frame = 0,
     prev_frame = 1,
     cur_frame = 2,
     estimator = (script, (False, [], 0)),
     change_reference_frames = False,
     ref_frame_change_threshold = 150,
     frame_count = 0,
     feature_window_size = 9,
     num_pyramid_levels = 3,
     target_pixels_per_feature = 250,
     use_homography_initialization = True,
     fast_threshold = 20,
     use_adaptive_threshold = True,
     fast_threshold_adaptive_gain = Finite 5764607523034235 (- 60),
     fast_threshold_min = 5,
     fast_threshold_max = 70,
     initial_rotation_pyramid_level = 0,
     motion_estimate = [],
     motion_estimate_covariance = 6,
     pose = [],
     ref_to_prev_frame = [],
     initial_motion_estimate = [],
     initial_motion_cov = 0,
     initial_homography_est = (\<lambda>i j. 0)\<rparr>"
  by (simp add: test_vo_def option_defs test_env_def)

lemma test_new_default:
  "VisualOdometry_new (test_env script) test_params [] = Inr ([], test_vo script [])"
  by (simp add: test_vo_def option_defs test_env_def)

lemmas default_run_defs =
  after_first_frame_def test_vo_default frame_defs test_env_def test_params_def c_div_def
  default_gain_products clamp_def Let_def estimateInitialRotation_def c_MIN_def mat_Identity_def
  scale_entries scale_entries[unfolded One_nat_def]

subsection \<open>The state machine of the reference frame\<close>

text \<open>Claim C10. If the preceding call set the change-reference flag, the current frame
  of that call has just become the reference, and a failed estimate against it is not
  followed by a second estimate against the previous frame. Here \<open>s1\<close> is the object
  at line 219 and \<open>s2\<close> the object at line 246, right after the estimate against the
  reference frame: the call returns \<open>s2\<close> with nothing changed but the flag. The
  estimator of \<open>s2\<close> is the result of one call of \<^verbatim>\<open>estimateMotion\<close> on the
  estimator as it was on entry, with the promoted frame as reference; had there been a
  second call, the estimator returned would be the result of that call.\<close>

theorem no_second_attempt_after_reference_change:
  assumes "enterFrame env gray depth_source s = Inr s1"
    and "1 \<le> frame_count s"
    and "change_reference_frames s"
    and "firstAttempt env depth_source True s1 = (q, s2)"
    and "\<not> isMotionEstimateValid env (estimator s2)"
  shows "processFrame env gray depth_source s = Inr (s2\<lparr>change_reference_frames := True\<rparr>)
       \<and> estimator s2 =
           fst (estimateMotion env (estimator s) (frames s1) (cur_frame s) (ref_frame s)
                  depth_source (initial_motion_estimate s2) (initial_motion_cov s2))
       \<and> pose s2 = pose s"
proof -
  obtain s1' where rot: "initialRotation env True s1 = (q, s1')"
    and s2: "s2 = estimateAgainstReference env depth_source q s1'"
    using assms(4) by (auto simp: firstAttempt_def split: prod.splits)
  have "processFrame env gray depth_source s = Inr (finishFrame env depth_source True q s2)"
    using processFrame_finish[OF assms(1,2)] assms(3,4) by simp
  moreover have "finishFrame env depth_source True q s2 = s2\<lparr>change_reference_frames := True\<rparr>"
    using assms(5) by (simp add: finishFrame_def switchReference_def)
  moreover have "estimator s2 =
           fst (estimateMotion env (estimator s) (frames s1) (cur_frame s) (ref_frame s)
                  depth_source (initial_motion_estimate s2) (initial_motion_cov s2))"
    using initialRotation_kept[OF rot] enterFrame_kept[OF assms(1)]
      enterFrame_handles[OF assms(1)] assms(3)
    by (simp add: s2 estimateAgainstReference_def Let_def split: prod.splits)
  moreover have "pose s2 = pose s"
    using firstAttempt_kept(1)[OF assms(4)] enterFrame_kept(1)[OF assms(1)] by simp
  ultimately show ?thesis by simp
qed

text \<open>The second frame of a run: the first frame has set the flag. The first estimate
  fails; the script still holds the estimate that a second call would have returned.\<close>

theorem no_second_attempt_witness:
  "enterFrame (test_env failing_script) 1000 () (test_run failing_script [1000])
     = Inr (projr (enterFrame (test_env failing_script) 1000 () (test_run failing_script [1000])))
   \<and> 1 \<le> frame_count (test_run failing_script [1000])
   \<and> change_reference_frames (test_run failing_script [1000])
   \<and> \<not> isMotionEstimateValid (test_env failing_script)
          (estimator (snd (firstAttempt (test_env failing_script) () True
             (projr (enterFrame (test_env failing_script) 1000 ()
                (test_run failing_script [1000]))))))
   \<and> map_sum id estimator
         (processFrame (test_env failing_script) 1000 () (test_run failing_script [1000]))
       = Inr ([(True, [7], 200)], (False, [], 0))
   \<and> map_sum id pose
         (processFrame (test_env failing_script) 1000 () (test_run failing_script [1000]))
       = Inr []"
proof -
  let ?env = "test_env failing_script"
  let ?s = "test_run failing_script [1000]"
  let ?s1 = "projr (enterFrame ?env 1000 () ?s)"
  let ?qs = "firstAttempt ?env () True ?s1"
  have h1: "enterFrame ?env 1000 () ?s = Inr ?s1"
    by (simp add: test_defs failing_script_def)
  have h2: "1 \<le> frame_count ?s"
    by (simp add: test_defs failing_script_def)
  have h3: "change_reference_frames ?s"
    by (simp add: test_defs failing_script_def)
  have h4: "firstAttempt ?env () True ?s1 = (fst ?qs, snd ?qs)" by simp
  have h5: "\<not> isMotionEstimateValid ?env (estimator (snd ?qs))"
    by (simp add: test_defs failing_script_def)
  have e: "estimator (snd ?qs) = ([(True, [7], 200)], (False, [], 0))" "pose ?s = []"
    by (simp_all add: test_defs failing_script_def)
  show ?thesis
    using no_second_attempt_after_reference_change[OF h1 h2 h3 h4 h5] h1 h2 h3 h5 e
    by simp
qed

text \<open>Claim C1, as amended. The claim says that the pose is kept in every frame whose
  estimate fails or has fewer inliers than \<^verbatim>\<open>_ref_frame_change_threshold\<close>. The driver
  keeps the pose only when the estimator has failed entirely, that is when the last
  estimate of the frame (the estimator of the returned object) is invalid. A valid
  estimate is accumulated whatever its inlier count (line 252, and line 271 for the
  estimate against the previous frame); in both cases the flag is set.\<close>

theorem reanchor_keeps_pose_only_on_failure:
  assumes "processFrame env gray depth_source s = Inr s'"
    and "1 \<le> frame_count s"
  shows "(\<not> isMotionEstimateValid env (estimator s')
            \<longrightarrow> pose s' = pose s \<and> change_reference_frames s')
       \<and> (isMotionEstimateValid env (estimator s')
             \<and> getNumInliers env (estimator s') < ref_frame_change_threshold s
            \<longrightarrow> pose s' = iso_mul env (pose s) (motion_estimate s') \<and> change_reference_frames s')"
proof -
  obtain s1 where s1: "enterFrame env gray depth_source s = Inr s1"
    using assms(1) by (auto simp: processFrame_def split: sum.splits)
  obtain q s2 where s2: "firstAttempt env depth_source (change_reference_frames s) s1 = (q, s2)"
    by (cases "firstAttempt env depth_source (change_reference_frames s) s1")
  have s': "s' = finishFrame env depth_source (change_reference_frames s) q s2"
    using processFrame_finish[OF s1 assms(2) s2] assms(1) by simp
  have p: "pose s2 = pose s"
    using firstAttempt_kept(1)[OF s2] enterFrame_kept(1)[OF s1] by simp
  have t: "ref_frame_change_threshold s2 = ref_frame_change_threshold s"
    using firstAttempt_kept(7)[OF s2] enterFrame_kept(6)[OF s1] by simp
  show ?thesis
    unfolding s' using finishFrame_pose[of env depth_source "change_reference_frames s" q s2]
      finishFrame_flag[of env depth_source "change_reference_frames s" q s2] p t
    by auto
qed

text \<open>The claim fails at the second frame of a run whose estimate is valid with 50
  inliers, below the threshold of 150: the pose moves from the identity to the motion
  \<open>[5]\<close>.\<close>

theorem reanchor_counterexample:
  "processFrame (test_env low_inlier_script) 1000 () (test_run low_inlier_script [1000])
     = Inr (test_run low_inlier_script [1000, 1000])
   \<and> frame_count (test_run low_inlier_script [1000]) = 1
   \<and> isMotionEstimateValid (test_env low_inlier_script)
        (estimator (test_run low_inlier_script [1000, 1000]))
   \<and> getNumInliers (test_env low_inlier_script)
        (estimator (test_run low_inlier_script [1000, 1000])) = 50
   \<and> ref_frame_change_threshold (test_run low_inlier_script [1000]) = 150
   \<and> pose (test_run low_inlier_script [1000]) = []
   \<and> pose (test_run low_inlier_script [1000, 1000]) = [5]
   \<and> pose (test_run low_inlier_script [1000, 1000]) \<noteq> pose (test_run low_inlier_script [1000])"
  by (simp add: test_defs low_inlier_script_def)

text \<open>Both cases occur: a second frame whose estimate fails, and the second frame of the
  counterexample.\<close>

theorem reanchor_witness:
  "processFrame (test_env failing_script) 1000 () (test_run failing_script [1000])
     = Inr (test_run failing_script [1000, 1000])
   \<and> 1 \<le> frame_count (test_run failing_script [1000])
   \<and> \<not> isMotionEstimateValid (test_env failing_script)
          (estimator (test_run failing_script [1000, 1000]))
   \<and> pose (test_run failing_script [1000, 1000]) = pose (test_run failing_script [1000])
   \<and> change_reference_frames (test_run failing_script [1000, 1000])
   \<and> processFrame (test_env low_inlier_script) 1000 () (test_run low_inlier_script [1000])
     = Inr (test_run low_inlier_script [1000, 1000])
   \<and> 1 \<le> frame_count (test_run low_inlier_script [1000])
   \<and> isMotionEstimateValid (test_env low_inlier_script)
          (estimator (test_run low_inlier_script [1000, 1000]))
   \<and> getNumInliers (test_env low_inlier_script)
        (estimator (test_run low_inlier_script [1000, 1000]))
       < ref_frame_change_threshold (test_run low_inlier_script [1000])
   \<and> pose (test_run low_inlier_script [1000, 1000])
       = iso_mul (test_env low_inlier_script) (pose (test_run low_inlier_script [1000]))
           (motion_estimate (test_run low_inlier_script [1000, 1000]))
   \<and> change_reference_frames (test_run low_inlier_script [1000, 1000])"
proof -
  have a1: "processFrame (test_env failing_script) 1000 () (test_run failing_script [1000])
     = Inr (test_run failing_script [1000, 1000])"
    by (simp add: test_defs failing_script_def)
  have a2: "1 \<le> frame_count (test_run failing_script [1000])"
    by (simp add: test_defs failing_script_def)
  have a3: "\<not> isMotionEstimateValid (test_env failing_script)
          (estimator (test_run failing_script [1000, 1000]))"
    by (simp add: test_defs failing_script_def)
  have b1: "processFrame (test_env low_inlier_script) 1000 () (test_run low_inlier_script [1000])
     = Inr (test_run low_inlier_script [1000, 1000])"
    by (simp add: test_defs low_inlier_script_def)
  have b2: "1 \<le> frame_count (test_run low_inlier_script [1000])"
    by (simp add: test_defs low_inlier_script_def)
  have b3: "isMotionEstimateValid (test_env low_inlier_script)
          (estimator (test_run low_inlier_script [1000, 1000]))"
     "getNumInliers (test_env low_inlier_script)
        (estimator (test_run low_inlier_script [1000, 1000]))
       < ref_frame_change_threshold (test_run low_inlier_script [1000])"
    by (simp_all add: test_defs low_inlier_script_def)
  show ?thesis
    using reanchor_keeps_pose_only_on_failure[OF a1 a2]
      reanchor_keeps_pose_only_on_failure[OF b1 b2] a1 a2 a3 b1 b2 b3
    by blast
qed

text \<open>Claim C4. When the estimate against the reference frame fails and the estimate
  against the previous frame succeeds, the pose is multiplied on the right by that
  estimate and the flag is set. The second estimate is made only when the flag was
  clear on entry (otherwise the previous frame is the reference frame); \<open>s2\<close> is the
  object at line 246, and its previous frame is the frame that was current on entry.\<close>

theorem fallback_accumulates_pose:
  assumes "enterFrame env gray depth_source s = Inr s1"
    and "1 \<le> frame_count s"
    and "\<not> change_reference_frames s"
    and "firstAttempt env depth_source False s1 = (q, s2)"
    and "\<not> isMotionEstimateValid env (estimator s2)"
    and "estimateMotion env (estimator s2) (frames s2) (prev_frame s2) (cur_frame s2) depth_source
           (iso_rotate env (iso_Identity env) q) (cov_setIdentity env (initial_motion_cov s2))
         = (e, fs)"
    and "isMotionEstimateValid env e"
  shows "\<exists>s'. processFrame env gray depth_source s = Inr s'
          \<and> estimator s' = e
          \<and> motion_estimate s' = getMotionEstimate env e
          \<and> pose s' = iso_mul env (pose s) (getMotionEstimate env e)
          \<and> change_reference_frames s'
          \<and> prev_frame s2 = cur_frame s"
proof -
  have h: "prev_frame s2 = cur_frame s" "cur_frame s2 = prev_frame s" "pose s2 = pose s"
    using firstAttempt_kept[OF assms(4)] enterFrame_handles[OF assms(1)]
      enterFrame_kept(1)[OF assms(1)] assms(3) by simp_all
  have "processFrame env gray depth_source s = Inr (finishFrame env depth_source False q s2)"
    using processFrame_finish[OF assms(1,2)] assms(3,4) by simp
  moreover have "estimator (finishFrame env depth_source False q s2) = e"
    and "motion_estimate (finishFrame env depth_source False q s2) = getMotionEstimate env e"
    and "pose (finishFrame env depth_source False q s2) = iso_mul env (pose s) (getMotionEstimate env e)"
    and "change_reference_frames (finishFrame env depth_source False q s2)"
    using assms(5,6,7) h
    by (simp_all add: finishFrame_def switchReference_def estimateAgainstPrevious_def Let_def)
  ultimately show ?thesis using h(1) by simp
qed

text \<open>The third frame of a run: the second frame was normal, so the flag is clear.\<close>

theorem fallback_witness:
  "enterFrame (test_env fallback_script) 1000 () (test_run fallback_script [1000, 1000])
     = Inr (projr (enterFrame (test_env fallback_script) 1000 ()
                     (test_run fallback_script [1000, 1000])))
   \<and> 1 \<le> frame_count (test_run fallback_script [1000, 1000])
   \<and> \<not> change_reference_frames (test_run fallback_script [1000, 1000])
   \<and> \<not> isMotionEstimateValid (test_env fallback_script)
          (estimator (snd (firstAttempt (test_env fallback_script) () False
             (projr (enterFrame (test_env fallback_script) 1000 ()
                (test_run fallback_script [1000, 1000]))))))
   \<and> isMotionEstimateValid (test_env fallback_script) ([], (True, [7], 180))
   \<and> pose (test_run fallback_script [1000, 1000]) = [1]
   \<and> map_sum id pose
        (processFrame (test_env fallback_script) 1000 () (test_run fallback_script [1000, 1000]))
       = Inr [1, 7]
   \<and> map_sum id change_reference_frames
        (processFrame (test_env fallback_script) 1000 () (test_run fallback_script [1000, 1000]))
       = Inr True"
proof -
  let ?env = "test_env fallback_script"
  let ?s = "test_run fallback_script [1000, 1000]"
  let ?s1 = "projr (enterFrame ?env 1000 () ?s)"
  let ?qs = "firstAttempt ?env () False ?s1"
  have h1: "enterFrame ?env 1000 () ?s = Inr ?s1"
    by (simp add: test_defs fallback_script_def)
  have h2: "1 \<le> frame_count ?s"
    by (simp add: test_defs fallback_script_def)
  have h3: "\<not> change_reference_frames ?s"
    by (simp add: test_defs fallback_script_def)
  have h4: "firstAttempt ?env () False ?s1 = (fst ?qs, snd ?qs)" by simp
  have h5: "\<not> isMotionEstimateValid ?env (estimator (snd ?qs))"
    by (simp add: test_defs fallback_script_def)
  have h6: "estimateMotion ?env (estimator (snd ?qs)) (frames (snd ?qs)) (prev_frame (snd ?qs))
              (cur_frame (snd ?qs)) () (iso_rotate ?env (iso_Identity ?env) (fst ?qs))
              (cov_setIdentity ?env (initial_motion_cov (snd ?qs)))
            = (([], (True, [7], 180)), frames (snd ?qs))"
    by (simp add: test_defs fallback_script_def)
  have h7: "isMotionEstimateValid ?env ([], (True, [7], 180))"
    by (simp add: test_env_def)
  have p: "pose ?s = [1]" "getMotionEstimate ?env ([], (True, [7], 180)) = [7]"
    "iso_mul ?env [1] [7] = [1, 7]"
    by (simp_all add: test_defs fallback_script_def)
  show ?thesis
    using fallback_accumulates_pose[OF h1 h2 h3 h4 h5 h6 h7] h1 h2 h3 h5 h7 p
    by auto
qed

text \<open>Claim C5. In a normal frame the pose is multiplied on the right by the
  inter-frame motion that the driver reports, the flag stays clear and the reference
  frame is the one in use since the rotation of frames at the start of the call;
  consequently, over a run of normal frames the pose is the pose at the start of the run
  multiplied, in order, by the reported motions, and the reference frame stays.\<close>

theorem normal_frames_compose_pose:
  assumes "normalRun env images s"
  shows "\<exists>s'. processFrames env images s = Inr s'
          \<and> pose s' = foldl (iso_mul env) (pose s) (reportedMotions env images s)
          \<and> (images \<noteq> [] \<longrightarrow>
                \<not> change_reference_frames s'
                \<and> ref_frame s' = (if change_reference_frames s then cur_frame s else ref_frame s))"
  using assms
proof (induction images arbitrary: s)
  case Nil
  then show ?case by simp
next
  case (Cons im rest)
  obtain gray depth_source where im: "im = (gray, depth_source)" by (cases im)
  from Cons.prems im have nf: "isNormalFrame env gray depth_source s" by simp
  from normal_frame[OF nf] obtain s1 where
    s1: "processFrame env gray depth_source s = Inr s1"
      "pose s1 = iso_mul env (pose s) (motion_estimate s1)"
      "\<not> change_reference_frames s1"
      "ref_frame s1 = (if change_reference_frames s then cur_frame s else ref_frame s)"
    by blast
  from Cons.prems im s1(1) have "normalRun env rest s1" by simp
  from Cons.IH[OF this] obtain s' where
    s': "processFrames env rest s1 = Inr s'"
      "pose s' = foldl (iso_mul env) (pose s1) (reportedMotions env rest s1)"
      "rest \<noteq> [] \<longrightarrow> \<not> change_reference_frames s' \<and> ref_frame s' = ref_frame s1"
    using s1(3) by auto
  have "rest = [] \<Longrightarrow> s' = s1" using s'(1) by simp
  then show ?case
    using im s1 s' by (cases "rest = []") auto
qed

text \<open>Three normal frames after the first frame of a run. The pose, the identity
  before them, is the product of the three reported motions in their order.\<close>

theorem normal_frames_witness:
  "normalRun (test_env normal_script) [(1000, ()), (1000, ()), (1000, ())]
     (test_run normal_script [1000])
   \<and> pose (test_run normal_script [1000]) = []
   \<and> reportedMotions (test_env normal_script) [(1000, ()), (1000, ()), (1000, ())]
       (test_run normal_script [1000]) = [[1], [- 1, 2], [- 2, 3]]
   \<and> map_sum id pose (processFrames (test_env normal_script) [(1000, ()), (1000, ()), (1000, ())]
       (test_run normal_script [1000])) = Inr ([1] @ [- 1, 2] @ [- 2, 3])
   \<and> map_sum id ref_frame (processFrames (test_env normal_script) [(1000, ()), (1000, ()), (1000, ())]
       (test_run normal_script [1000])) = Inr (cur_frame (test_run normal_script [1000]))"
proof -
  let ?env = "test_env normal_script"
  let ?s = "test_run normal_script [1000]"
  have h: "normalRun ?env [(1000, ()), (1000, ()), (1000, ())] ?s"
    by (simp add: test_defs normal_script_def isNormalFrame_def)
  have m: "reportedMotions ?env [(1000, ()), (1000, ()), (1000, ())] ?s = [[1], [- 1, 2], [- 2, 3]]"
    by (simp add: test_defs normal_script_def)
  have p: "pose ?s = []" "change_reference_frames ?s"
    by (simp_all add: test_defs normal_script_def)
  have f: "foldl (iso_mul ?env) [] [[1], [- 1, 2], [- 2, 3]] = [1] @ [- 1, 2] @ [- 2, 3]"
    by (simp add: test_env_def)
  show ?thesis
    using normal_frames_compose_pose[OF h] h m p f by auto
qed

text \<open>Claim C3. When a call is entered with the change-reference flag set (the preceding
  call has ended with it), the handles of the reference and the current frame are
  exchanged: the frame that was current becomes the reference. No frame is copied: the
  only frame of the store that is written before the estimate is the new current frame,
  which \<^verbatim>\<open>prepareFrame\<close> fills. \<^verbatim>\<open>ref_to_prev_frame\<close> is the identity in the object
  \<open>s1\<close> at line 219, before the estimate, and the initial motion estimate handed to
  the estimator is formed from that identity.\<close>

theorem reference_change_promotes_current_frame:
  assumes "change_reference_frames s"
    and "enterFrame env gray depth_source s = Inr s1"
  shows "ref_frame s1 = cur_frame s \<and> cur_frame s1 = ref_frame s \<and> prev_frame s1 = prev_frame s
       \<and> (\<forall>h. h \<noteq> ref_frame s \<longrightarrow> frames s1 h = frames s h)
       \<and> ref_to_prev_frame s1 = iso_Identity env
       \<and> (\<exists>s'. processFrame env gray depth_source s = Inr s'
              \<and> ref_frame s' = cur_frame s \<and> cur_frame s' = ref_frame s
              \<and> prev_frame s' = prev_frame s
              \<and> (1 \<le> frame_count s \<longrightarrow>
                   initial_motion_estimate s' =
                     iso_rotate env (iso_inverse env (iso_Identity env))
                       (fst (firstAttempt env depth_source True s1))))"
proof -
  have h: "ref_frame s1 = cur_frame s" "cur_frame s1 = ref_frame s" "prev_frame s1 = prev_frame s"
    "ref_to_prev_frame s1 = iso_Identity env"
    using enterFrame_handles[OF assms(2)] enterFrame_reset[OF assms(2)] assms(1) by simp_all
  have f: "\<forall>h. h \<noteq> ref_frame s \<longrightarrow> frames s1 h = frames s h"
    using enterFrame_handles(4)[OF assms(2)] h(2) by simp
  obtain q s2 where s2: "firstAttempt env depth_source True s1 = (q, s2)"
    by (cases "firstAttempt env depth_source True s1")
  have c: "frame_count s1 = frame_count s + 1" using enterFrame_kept(3)[OF assms(2)] .
  show ?thesis
  proof (cases "1 \<le> frame_count s")
    case True
    have "processFrame env gray depth_source s = Inr (finishFrame env depth_source True q s2)"
      using processFrame_finish[OF assms(2) True] s2 assms(1) by simp
    then show ?thesis
      using h f s2 finishFrame_handles[of env depth_source True q s2]
        firstAttempt_kept[OF s2] firstAttempt_initial_estimate[OF s2]
        finishFrame_initial_estimate[of True env s2 depth_source q]
      by simp
  next
    case False
    then have "processFrame env gray depth_source s = Inr (s1\<lparr>change_reference_frames := True\<rparr>)"
      using assms(2) c by (simp add: processFrame_def)
    then show ?thesis using h f False by simp
  qed
qed

text \<open>The second frame of a run: the frame with handle 1, current after the first
  call, is the reference after the second, with the content it had.\<close>

theorem reference_change_witness:
  "change_reference_frames (test_run failing_script [1000])
   \<and> enterFrame (test_env failing_script) 1000 () (test_run failing_script [1000])
       = Inr (projr (enterFrame (test_env failing_script) 1000 () (test_run failing_script [1000])))
   \<and> 1 \<le> frame_count (test_run failing_script [1000])
   \<and> ref_frame (test_run failing_script [1000]) = 0
   \<and> cur_frame (test_run failing_script [1000]) = 1
   \<and> frames (test_run failing_script [1000]) 1 = 1000
   \<and> map_sum id ref_frame
        (processFrame (test_env failing_script) 1000 () (test_run failing_script [1000])) = Inr 1
   \<and> map_sum id cur_frame
        (processFrame (test_env failing_script) 1000 () (test_run failing_script [1000])) = Inr 0
   \<and> frames (projr (enterFrame (test_env failing_script) 1000 ()
                (test_run failing_script [1000]))) 1 = 1000
   \<and> ref_to_prev_frame (projr (enterFrame (test_env failing_script) 1000 ()
                (test_run failing_script [1000]))) = []
   \<and> map_sum id initial_motion_estimate
        (processFrame (test_env failing_script) 1000 () (test_run failing_script [1000])) = Inr []"
proof -
  let ?env = "test_env failing_script"
  let ?s = "test_run failing_script [1000]"
  let ?s1 = "projr (enterFrame ?env 1000 () ?s)"
  have h1: "change_reference_frames ?s"
    by (simp add: test_defs failing_script_def)
  have h2: "enterFrame ?env 1000 () ?s = Inr ?s1"
    by (simp add: test_defs failing_script_def)
  have h3: "1 \<le> frame_count ?s" "ref_frame ?s = 0" "cur_frame ?s = 1" "frames ?s 1 = 1000"
    by (simp_all add: test_defs failing_script_def)
  have q: "iso_rotate ?env (iso_inverse ?env (iso_Identity ?env))
             (fst (firstAttempt ?env () True ?s1)) = []"
    by (simp add: test_defs failing_script_def)
  have i: "iso_Identity ?env = []" by (simp add: test_env_def)
  show ?thesis
    using reference_change_promotes_current_frame[OF h1 h2] h1 h2 h3 q i
    by auto
qed

text \<open>Claim C6. On a call with frame count 0 the driver prepares the current frame, sets
  the flag and returns: the result is the object \<open>s1\<close> at line 210 with the flag set.
  The pose, the estimator and the members that \<^verbatim>\<open>estimateInitialRotation\<close> writes are
  as on entry, and the result is the same whatever the motion estimator and the
  homography tracker are, so neither is run. (The pose of a constructed driver is the
  identity, and its frame count is 0.)\<close>

theorem first_frame_bootstraps:
  assumes "frame_count s = 0"
    and "enterFrame env gray depth_source s = Inr s1"
  shows "processFrame env gray depth_source s = Inr (s1\<lparr>change_reference_frames := True\<rparr>)
       \<and> frames s1 (cur_frame s1) =
           prepareFrame env (frames s (cur_frame s1)) gray (fast_threshold s) depth_source
       \<and> pose s1 = pose s
       \<and> estimator s1 = estimator s
       \<and> initial_homography_est s1 = initial_homography_est s
       \<and> initial_rotation_pyramid_level s1 = initial_rotation_pyramid_level s
       \<and> initial_motion_estimate s1 = initial_motion_estimate s
       \<and> processFrame (env\<lparr>estimateMotion := em, homography_track := ht\<rparr>) gray depth_source s
           = processFrame env gray depth_source s"
proof -
  note e = enterFrame_independent
  have c: "frame_count s1 < 2" using enterFrame_kept(3)[OF assms(2)] assms(1) by simp
  have "frames s1 (cur_frame s1) =
           prepareFrame env (frames s (cur_frame s1)) gray (fast_threshold s) depth_source"
    using enterFrame_handles(4)[OF assms(2)] by (metis fun_upd_same)
  then show ?thesis
    using assms(2) c enterFrame_kept[OF assms(2)]
    by (simp add: processFrame_def e)
qed

text \<open>The first frame of a driver constructed with the default options.\<close>

theorem first_frame_witness:
  "frame_count (test_vo failing_script []) = 0
   \<and> pose (test_vo failing_script []) = iso_Identity (test_env failing_script)
   \<and> enterFrame (test_env failing_script) 1000 () (test_vo failing_script [])
       = Inr (projr (enterFrame (test_env failing_script) 1000 () (test_vo failing_script [])))
   \<and> map_sum id pose (processFrame (test_env failing_script) 1000 () (test_vo failing_script []))
       = Inr (iso_Identity (test_env failing_script))
   \<and> map_sum id change_reference_frames
        (processFrame (test_env failing_script) 1000 () (test_vo failing_script [])) = Inr True
   \<and> map_sum id estimator
        (processFrame (test_env failing_script) 1000 () (test_vo failing_script []))
       = Inr (failing_script, (False, [], 0))
   \<and> map_sum id (\<lambda>s. frames s (cur_frame s))
        (processFrame (test_env failing_script) 1000 () (test_vo failing_script [])) = Inr 1000"
proof -
  let ?env = "test_env failing_script"
  let ?s = "test_vo failing_script []"
  let ?s1 = "projr (enterFrame ?env 1000 () ?s)"
  have h1: "frame_count ?s = 0" "pose ?s = iso_Identity ?env"
    "estimator ?s = (failing_script, (False, [], 0))"
    by (simp_all add: test_vo_default test_env_def)
  have h2: "enterFrame ?env 1000 () ?s = Inr ?s1"
    by (simp add: test_vo_default enter_defs test_env_def test_params_def c_div_def
        default_gain_products clamp_def Let_def is_int_def INT_MIN_def INT_MAX_def)
  have p: "prepareFrame ?env (frames ?s (cur_frame ?s1)) 1000 (fast_threshold ?s) () = 1000"
    by (simp add: test_env_def)
  show ?thesis
    using first_frame_bootstraps[OF h1(1) h2] h1 h2 p by simp
qed

subsection \<open>The adaptive threshold\<close>

text \<open>Claim C2, as amended. On a driver that has been constructed and has processed any
  number of frames, with adaptive thresholding enabled, every call that returns has
  updated the threshold as line 204 does: the error, the number of keypoints of the frame
  just prepared minus the truncating quotient of the image area by
  \<^verbatim>\<open>_target_pixels_per_feature\<close> (which is not zero), is multiplied by the gain in
  double precision, the product \<open>p\<close> is converted to \<^verbatim>\<open>int\<close>, which discards its
  fractional part (truncation towards zero, not rounding to the nearest integer), and
  the sum is clamped to the interval from 5 to 70.\<close>

theorem adaptive_threshold_truncates:
  assumes "VisualOdometry_new env prms opts = Inr (w, s0)"
    and "processFrames env images s0 = Inr s"
    and "use_adaptive_threshold s"
    and "processFrame env gray depth_source s = Inr s'"
  shows "let detected =
               getNumDetectedKeypoints env
                 (prepareFrame env
                    (frames s (if change_reference_frames s then ref_frame s else prev_frame s))
                    gray (fast_threshold s) depth_source);
             target = c_div (width (params s) * height (params s)) (target_pixels_per_feature s);
             p = double_mul (double_of_int (detected - target)) (fast_threshold_adaptive_gain s)
         in target_pixels_per_feature s \<noteq> 0
          \<and> (\<exists>thresh_adjustment.
                 double_to_int p = Some thresh_adjustment
               \<and> thresh_adjustment =
                   (if 0 \<le> double_value p then \<lfloor>double_value p\<rfloor> else \<lceil>double_value p\<rceil>)
               \<and> fast_threshold s' = clamp (fast_threshold s + thresh_adjustment) 5 70)
          \<and> 5 \<le> fast_threshold s' \<and> fast_threshold s' \<le> 70"
proof -
  have b: "fast_threshold_min s = 5" "fast_threshold_max s = 70"
    using processFrames_threshold_bounds[OF assms(2)] constructed_state(4,5)[OF assms(1)]
    by simp_all
  obtain s1 where s1: "enterFrame env gray depth_source s = Inr s1"
    "fast_threshold s' = fast_threshold s1"
    using processFrame_threshold[OF assms(4)] by blast
  let ?p = "double_mul
              (double_of_int
                 (getNumDetectedKeypoints env
                    (prepareFrame env
                       (frames s (if change_reference_frames s then ref_frame s else prev_frame s))
                       gray (fast_threshold s) depth_source)
                  - c_div (width (params s) * height (params s)) (target_pixels_per_feature s)))
              (fast_threshold_adaptive_gain s)"
  from enterFrame_threshold(2)[OF s1(1) assms(3)] obtain a where
    a: "double_to_int ?p = Some a"
       "fast_threshold s1 = clamp (fast_threshold s + a) (fast_threshold_min s) (fast_threshold_max s)"
    by blast
  obtain m e where p: "?p = Finite m e"
    using a(1) by (cases ?p) simp_all
  have t: "a = (if 0 \<le> double_value ?p then \<lfloor>double_value ?p\<rfloor> else \<lceil>double_value ?p\<rceil>)"
    using a(1) double_to_int_truncates[of m e] unfolding p by simp
  have c: "fast_threshold s' = clamp (fast_threshold s + a) 5 70"
    using a(2) s1(2) b by simp
  have "5 \<le> fast_threshold s' \<and> fast_threshold s' \<le> 70"
    unfolding c using clamp_bounds[of 5 70] by simp
  then show ?thesis
    unfolding Let_def using enterFrame_threshold(1)[OF s1(1) assms(3)] a(1) t c by blast
qed

text \<open>The claim fails on a 640 by 480 image with 1378 corners, at the default gain (the
  double nearest to 0.005): the target is 1228, the error 150 and the double product is
  exactly 0.75, which the driver truncates to 0 where rounding gives 1; the threshold
  stays 20 where the claim gives 21.\<close>

theorem adaptive_threshold_counterexample:
  "use_adaptive_threshold (test_vo [] [])
   \<and> fast_threshold (test_vo [] []) = 20
   \<and> fast_threshold_adaptive_gain (test_vo [] []) = Finite 5764607523034235 (- 60)
   \<and> c_div (width (params (test_vo [] [])) * height (params (test_vo [] [])))
        (target_pixels_per_feature (test_vo [] [])) = 1228
   \<and> getNumDetectedKeypoints (test_env [])
        (prepareFrame (test_env []) (frames (test_vo [] []) (prev_frame (test_vo [] []))) 1378 20 ()) = 1378
   \<and> double_mul (double_of_int (1378 - 1228)) (Finite 5764607523034235 (- 60))
       = Finite 6755399441055744 (- 53)
   \<and> double_value (Finite 6755399441055744 (- 53)) = 3 / 4
   \<and> map_sum id fast_threshold (processFrame (test_env []) 1378 () (test_vo [] [])) = Inr 20
   \<and> clamp (20 + round (double_value (Finite 6755399441055744 (- 53)))) 5 70 = 21"
proof -
  have v: "double_value (Finite 6755399441055744 (- 53)) = 3 / 4"
    using double_value_negative_exponent[of 6755399441055744 53] by simp
  have r: "round (3 / 4 :: real) = 1"
    by (simp add: round_def)
  show ?thesis
    unfolding v r
    by (simp add: test_vo_default frame_defs test_env_def test_params_def c_div_def
        default_gain_products clamp_def Let_def)
qed

text \<open>The second frame of a driver constructed with the default options, an image with
  1000 corners: the error is \<open>- 228\<close>, the product about \<open>- 1.14\<close>, truncated to
  \<open>- 1\<close>.\<close>

theorem adaptive_threshold_witness:
  "VisualOdometry_new (test_env []) test_params [] = Inr ([], test_vo [] [])
   \<and> processFrames (test_env []) [(1378, ())] (test_vo [] []) = Inr after_first_frame
   \<and> use_adaptive_threshold after_first_frame
   \<and> fast_threshold after_first_frame = 20
   \<and> target_pixels_per_feature after_first_frame \<noteq> 0
   \<and> double_to_int (double_mul (double_of_int (1000 - 1228)) (Finite 5764607523034235 (- 60)))
       = Some (- 1)
   \<and> map_sum id fast_threshold (processFrame (test_env []) 1000 () after_first_frame) = Inr 19
   \<and> clamp (20 + (- 1)) 5 70 = 19"
proof -
  let ?s = "after_first_frame"
  let ?r = "processFrame (test_env []) 1000 () ?s"
  have h0: "processFrames (test_env []) [(1378, ())] (test_vo [] []) = Inr ?s"
    by (simp add: default_run_defs)
  have h1: "use_adaptive_threshold ?s" "fast_threshold ?s = 20"
    by (simp_all add: default_run_defs)
  have h2: "?r = Inr (projr ?r)"
    by (simp add: default_run_defs)
  have c: "clamp (20 + (- 1)) 5 70 = 19"
    by (simp add: clamp_def)
  have e: "double_mul
             (double_of_int
                (getNumDetectedKeypoints (test_env [])
                   (prepareFrame (test_env [])
                      (frames ?s (if change_reference_frames ?s then ref_frame ?s
                                  else prev_frame ?s))
                      1000 (fast_threshold ?s) ())
                 - c_div (width (params ?s) * height (params ?s))
                     (target_pixels_per_feature ?s)))
             (fast_threshold_adaptive_gain ?s)
           = double_mul (double_of_int (- 228)) (Finite 5764607523034235 (- 60))"
    by (simp add: default_run_defs)
  note t = adaptive_threshold_truncates[OF test_new_default h0 h1(1) h2, unfolded Let_def e]
  from t obtain a where
    a: "double_to_int (double_mul (double_of_int (- 228)) (Finite 5764607523034235 (- 60)))
          = Some a"
       "fast_threshold (projr ?r) = clamp (fast_threshold ?s + a) 5 70"
    by blast
  have "a = - 1"
    using a(1) default_gain_products(3) by simp
  then have "fast_threshold (projr ?r) = 19"
    using a(2) c h1(2) by simp
  then have r: "map_sum id fast_threshold ?r = Inr 19"
    using h2 by (metis id_apply map_sum.simps(2))
  from t have n: "target_pixels_per_feature ?s \<noteq> 0" by blast
  show ?thesis
    using test_new_default h0 h1 n r c default_gain_products(3) by simp
qed

subsection \<open>The initial rotation\<close>

text \<open>Claim C7, as amended. With homography initialisation enabled, the initial rotation
  of a frame is that of \<^verbatim>\<open>estimateInitialRotation\<close> on the frame matched last and the
  current frame. The homography is estimated at pyramid level \<open>min (N - 1) 4\<close>, where
  \<open>N\<close> is the number of levels of the frame: the coarsest level when there are at most
  five levels, not the coarsest but one. The images are downsampled by a further
  \<open>4 - level\<close>, the tracker starts from the identity and makes 8 iterations. The
  result \<open>H0\<close> is scaled to full resolution by conjugation with the diagonal matrix of
  16, 16 and 1, and the rotation is read from the scaled \<open>H\<close> as the claim says:
  roll from \<open>H 1 2 / fx\<close>, pitch from \<open>H 0 2 / fx\<close>, yaw from \<open>H 1 0\<close> and
  \<open>H 0 0\<close>.\<close>

theorem initial_rotation_from_homography:
  "let L = min (getNumLevels env prev - 1) 4;
       H0 = homography_track env (getLevel env prev L) (4 - L) (getLevel env cur L) (4 - L)
              mat_Identity 8;
       (q, s') = estimateInitialRotation env prev cur s;
       H = initial_homography_est s'
   in H 0 0 = H0 0 0 \<and> H 0 1 = H0 0 1 \<and> H 0 2 = 16 * H0 0 2
    \<and> H 1 0 = H0 1 0 \<and> H 1 1 = H0 1 1 \<and> H 1 2 = 16 * H0 1 2
    \<and> H 2 0 = H0 2 0 / 16 \<and> H 2 1 = H0 2 1 / 16 \<and> H 2 2 = H0 2 2
    \<and> q = rpy_to_quat env
            (c_asin env (H 1 2 / fx (params s)),
             - c_asin env (H 0 2 / fx (params s)),
             - c_atan2 env (H 1 0) (H 0 0))
    \<and> (use_homography_initialization s \<longrightarrow>
          fst (firstAttempt env depth_source changed s)
            = fst (estimateInitialRotation env
                     (frames s (if changed then ref_frame s else prev_frame s))
                     (frames s (cur_frame s)) s))"
proof -
  have m: "c_MIN (getNumLevels env prev - 1) 4 = min (getNumLevels env prev - 1) 4"
    by (simp add: c_MIN_def min_def)
  have f: "use_homography_initialization s \<Longrightarrow>
          fst (firstAttempt env depth_source changed s)
            = fst (estimateInitialRotation env
                     (frames s (if changed then ref_frame s else prev_frame s))
                     (frames s (cur_frame s)) s)"
    by (simp add: firstAttempt_def initialRotation_def split: prod.splits)
  show ?thesis
    using f by (simp add: estimateInitialRotation_def Let_def m scale_entries
        scale_entries[unfolded One_nat_def])
qed

text \<open>The claim fails on frames with three levels: the levels are 0, 1 and 2, the
  coarsest but one is level 1, and the tracker is run on level 2. (The test tracker
  returns the index of its template level at \<open>H 0 0\<close>.)\<close>

theorem homography_level_counterexample:
  "use_homography_initialization (test_vo [] [])
   \<and> getNumLevels (test_env []) (0::int) = 3
   \<and> c_MIN (getNumLevels (test_env []) (0::int) - 1) 4 = 2
   \<and> initial_homography_est
        (snd (estimateInitialRotation (test_env []) 0 0 (test_vo [] []))) 0 0 = 2
   \<and> c_MIN (getNumLevels (test_env []) (0::int) - 1) 4 \<noteq> getNumLevels (test_env []) (0::int) - 2"
  by (simp add: test_vo_default estimateInitialRotation_def Let_def test_env_def c_MIN_def
      scale_entries mat_Identity_def)

text \<open>The driver constructed with the default options, on frames with three levels.\<close>

theorem initial_rotation_witness:
  "use_homography_initialization (test_vo [] [])
   \<and> min (getNumLevels (test_env []) (0::int) - 1) 4 = 2
   \<and> initial_homography_est
        (snd (estimateInitialRotation (test_env []) 0 0 (test_vo [] []))) 1 2 = 128
   \<and> fx (params (test_vo [] [])) = 500
   \<and> fst (estimateInitialRotation (test_env []) 0 0 (test_vo [] [])) = [256, - 256, - 2000]
   \<and> fst (firstAttempt (test_env []) () False (test_vo [] [])) = [256, - 256, - 2000]"
proof -
  let ?env = "test_env []"
  let ?s = "test_vo [] []"
  have h: "use_homography_initialization ?s" "fx (params ?s) = 500"
    "frames ?s (if False then ref_frame ?s else prev_frame ?s) = 0" "frames ?s (cur_frame ?s) = 0"
    by (simp_all add: test_vo_default test_params_def)
  have l: "min (getNumLevels ?env (0::int) - 1) 4 = 2"
    by (simp add: test_env_def)
  have t: "homography_track ?env (getLevel ?env 0 2) (4 - 2) (getLevel ?env 0 2) (4 - 2)
             mat_Identity 8
           = (\<lambda>i j. 2 * mat_Identity i j + (if i < 2 \<and> j = 2 then 8 else 0))"
    by (simp add: test_env_def cong: if_cong)
  have r: "rpy_to_quat ?env (c_asin ?env (128 / 500), - c_asin ?env (128 / 500),
             - c_atan2 ?env 0 2) = [256, - 256, - 2000]"
    by (simp add: test_env_def)
  obtain q s' where e: "estimateInitialRotation ?env 0 0 ?s = (q, s')"
    by (cases "estimateInitialRotation ?env 0 0 ?s")
  have "initial_homography_est s' 1 2 = 128 \<and> q = [256, - 256, - 2000]
        \<and> fst (firstAttempt ?env () False ?s) = q"
    using initial_rotation_from_homography[where env = ?env and prev = 0 and cur = 0
        and s = ?s and depth_source = "()" and changed = False] h l t r e
    by (simp add: Let_def mat_Identity_def)
  then show ?thesis using h l e by simp
qed

subsection \<open>Options\<close>



end
